theory Spec2Isabelle
  imports
    Main
    "HOL-Library.Char_ord"
    "HOL-Library.List_Lexorder"
    "HOL-Library.Product_Lexorder"
    "HOL-Library.AList"
begin

section \<open>ProjectFlow backend (\<^verbatim>\<open>src/backend/server.py\<close>): data model\<close>

text \<open>
  The pydantic models of the source become records. The field names of the source
  (\<^verbatim>\<open>id\<close>, \<^verbatim>\<open>description\<close>, \<^verbatim>\<open>created_at\<close>, ...) repeat from class to class, so each
  record prefixes them with the name of its class. An \<^verbatim>\<open>Optional[str]\<close> is a
  \<open>string option\<close>. Python strings are \<open>string\<close>, compared character by character
  (\<^verbatim>\<open>Char_ord\<close>, \<^verbatim>\<open>List_Lexorder\<close>), as Python compares code points.

  Python floats are kept abstract: the type variable \<open>'f\<close> stands for \<^verbatim>\<open>float\<close>, and the
  float operations the handlers call are parameters (record \<open>pyfloat\<close> below).
\<close>

record time_entry =
  entry_id :: string
  entry_description :: string
  duration_minutes :: int
  entry_date :: string
  entry_created_at :: string

record 'f task =
  task_id :: string
  task_title :: string
  task_description :: string
  task_priority :: string
  task_status :: string
  task_due_date :: "string option"
  task_estimated_hours :: "'f option"
  time_entries :: "time_entry list"
  task_created_at :: string
  task_completed_at :: "string option"

record milestone =
  milestone_id :: string
  milestone_title :: string
  milestone_description :: string
  milestone_due_date :: string
  completed :: bool
  milestone_completed_at :: "string option"

record 'f project =
  project_id :: string
  project_name :: string
  project_description :: string
  project_color :: string
  project_status :: string
  project_deadline :: "string option"
  owner_id :: string
  tasks :: "'f task list"
  milestones :: "milestone list"
  project_created_at :: string
  updated_at :: string

text \<open>The request bodies: \<^verbatim>\<open>ProjectCreate\<close>, \<^verbatim>\<open>ProjectUpdate\<close>, \<^verbatim>\<open>TaskCreate\<close>,
  \<^verbatim>\<open>TaskUpdate\<close>, \<^verbatim>\<open>TimeEntryCreate\<close>, \<^verbatim>\<open>MilestoneCreate\<close>.\<close>

record project_create =
  pc_name :: string
  pc_description :: "string option"
  pc_color :: string
  pc_deadline :: "string option"

record project_update =
  pu_name :: "string option"
  pu_description :: "string option"
  pu_color :: "string option"
  pu_deadline :: "string option"
  pu_status :: "string option"

record 'f task_create =
  tc_title :: string
  tc_description :: "string option"
  tc_priority :: string
  tc_due_date :: "string option"
  tc_estimated_hours :: "'f option"

record 'f task_update =
  tu_title :: "string option"
  tu_description :: "string option"
  tu_priority :: "string option"
  tu_status :: "string option"
  tu_due_date :: "string option"
  tu_estimated_hours :: "'f option"

record time_entry_create =
  tec_description :: "string option"
  tec_duration_minutes :: int
  tec_date :: string

record milestone_create =
  mc_title :: string
  mc_description :: "string option"
  mc_due_date :: string

text \<open>\<^verbatim>\<open>raise HTTPException(status_code=..., detail=...)\<close> is the only way a handler fails.\<close>

datatype error = HTTPException nat string

type_synonym 'f db = "'f project list"

section \<open>The document store\<close>

text \<open>
  \<^verbatim>\<open>db.projects\<close> is a MongoDB collection; it is modelled as the list of its documents in
  storage order. A query is a predicate on documents. \<^verbatim>\<open>find_one\<close> returns the first
  match, \<^verbatim>\<open>update_one\<close> and \<^verbatim>\<open>find_one_and_update\<close> change the first match only,
  \<^verbatim>\<open>delete_one\<close> removes the first match and reports how many documents it removed,
  and \<^verbatim>\<open>find(...).to_list(n)\<close> returns the first \<open>n\<close> matches.
\<close>

definition find_one :: "('a \<Rightarrow> bool) \<Rightarrow> 'a list \<Rightarrow> 'a option" where
  "find_one q coll = List.find q coll"

fun update_one :: "('a \<Rightarrow> bool) \<Rightarrow> ('a \<Rightarrow> 'a) \<Rightarrow> 'a list \<Rightarrow> 'a list" where
  "update_one q f [] = []"
| "update_one q f (d # ds) = (if q d then f d # ds else d # update_one q f ds)"

text \<open>\<open>return_document\<close> chooses the document handed back: the one after the update
  (\<^verbatim>\<open>return_document=True\<close>) or the one before it (the driver's default).\<close>

definition find_one_and_update ::
  "('a \<Rightarrow> bool) \<Rightarrow> ('a \<Rightarrow> 'a) \<Rightarrow> bool \<Rightarrow> 'a list \<Rightarrow> 'a option \<times> 'a list" where
  "find_one_and_update q f return_document coll =
     ((if return_document then map_option f (find_one q coll) else find_one q coll),
      update_one q f coll)"

fun delete_one :: "('a \<Rightarrow> bool) \<Rightarrow> 'a list \<Rightarrow> nat \<times> 'a list" where
  "delete_one q [] = (0, [])"
| "delete_one q (d # ds) =
     (if q d then (1, ds) else (case delete_one q ds of (n, ds') \<Rightarrow> (n, d # ds')))"

definition find_to_list :: "('a \<Rightarrow> bool) \<Rightarrow> nat \<Rightarrow> 'a list \<Rightarrow> 'a list" where
  "find_to_list q n coll = take n (filter q coll)"

text \<open>The three queries of the source: \<^verbatim>\<open>{"id": pid, "owner_id": uid}\<close>,
  \<^verbatim>\<open>{"id": pid}\<close> and \<^verbatim>\<open>{"owner_id": uid}\<close>.\<close>

definition by_id_owner :: "string \<Rightarrow> string \<Rightarrow> 'f project \<Rightarrow> bool" where
  "by_id_owner pid uid p = (project_id p = pid \<and> owner_id p = uid)"

definition by_id :: "string \<Rightarrow> 'f project \<Rightarrow> bool" where
  "by_id pid p = (project_id p = pid)"

definition by_owner :: "string \<Rightarrow> 'f project \<Rightarrow> bool" where
  "by_owner uid p = (owner_id p = uid)"

text \<open>\<^verbatim>\<open>next((i for i, t in enumerate(xs) if t["id"] == wanted), None)\<close>: the index of the
  first element that satisfies the test, or \<^verbatim>\<open>None\<close>.\<close>

fun first_index :: "('a \<Rightarrow> bool) \<Rightarrow> 'a list \<Rightarrow> nat option" where
  "first_index P [] = None"
| "first_index P (x # xs) = (if P x then Some 0 else map_option Suc (first_index P xs))"

text \<open>\<^verbatim>\<open>x or ""\<close> on an \<^verbatim>\<open>Optional[str]\<close>, and the truth value of one.\<close>

definition or_empty :: "string option \<Rightarrow> string" where
  "or_empty x = (case x of None \<Rightarrow> [] | Some s \<Rightarrow> s)"

definition truthy :: "string option \<Rightarrow> bool" where
  "truthy x = (case x of None \<Rightarrow> False | Some s \<Rightarrow> s \<noteq> [])"

definition project_not_found :: error where
  "project_not_found = HTTPException 404 ''Project not found''"

definition task_not_found :: error where
  "task_not_found = HTTPException 404 ''Task not found''"

definition milestone_not_found :: error where
  "milestone_not_found = HTTPException 404 ''Milestone not found''"

section \<open>Project routes\<close>

text \<open>
  Every handler takes the collection and returns its response, or the exception it
  raises, together with the collection afterwards. The caller (\<^verbatim>\<open>current_user["id"]\<close>)
  is \<open>uid\<close>. A value the handler draws from outside is an argument: each reading of the
  clock (\<^verbatim>\<open>datetime.now(timezone.utc).isoformat()\<close>) and each fresh \<^verbatim>\<open>uuid4\<close>.
\<close>

definition get_projects :: "'f db \<Rightarrow> string \<Rightarrow> 'f project list" where
  "get_projects db uid = find_to_list (by_owner uid) 1000 db"

definition create_project ::
  "'f db \<Rightarrow> project_create \<Rightarrow> string \<Rightarrow> string \<Rightarrow> string \<Rightarrow> 'f project \<times> 'f db" where
  "create_project db project_data uid new_id now =
     (let project = \<lparr>project_id = new_id, project_name = pc_name project_data,
            project_description = or_empty (pc_description project_data),
            project_color = pc_color project_data, project_status = ''active'',
            project_deadline = pc_deadline project_data, owner_id = uid,
            tasks = [], milestones = [], project_created_at = now, updated_at = now\<rparr>
      in (project, db @ [project]))"

definition get_project :: "'f db \<Rightarrow> string \<Rightarrow> string \<Rightarrow> error + 'f project" where
  "get_project db pid uid =
     (case find_one (by_id_owner pid uid) db of
        None \<Rightarrow> Inl project_not_found
      | Some project \<Rightarrow> Inr project)"

text \<open>\<^verbatim>\<open>{"$set": update_dict}\<close> where \<^verbatim>\<open>update_dict\<close> holds the fields of the body that
  are not \<^verbatim>\<open>None\<close>, and \<^verbatim>\<open>updated_at\<close>.\<close>

definition set_project_fields :: "project_update \<Rightarrow> string \<Rightarrow> 'f project \<Rightarrow> 'f project" where
  "set_project_fields project_data now p =
     p\<lparr>project_name := (case pu_name project_data of None \<Rightarrow> project_name p | Some v \<Rightarrow> v),
       project_description :=
         (case pu_description project_data of None \<Rightarrow> project_description p | Some v \<Rightarrow> v),
       project_color := (case pu_color project_data of None \<Rightarrow> project_color p | Some v \<Rightarrow> v),
       project_deadline :=
         (case pu_deadline project_data of None \<Rightarrow> project_deadline p | Some v \<Rightarrow> Some v),
       project_status := (case pu_status project_data of None \<Rightarrow> project_status p | Some v \<Rightarrow> v),
       updated_at := now\<rparr>"

definition update_project ::
  "'f db \<Rightarrow> string \<Rightarrow> project_update \<Rightarrow> string \<Rightarrow> string \<Rightarrow> (error + 'f project) \<times> 'f db" where
  "update_project db pid project_data uid now =
     (case find_one_and_update (by_id_owner pid uid) (set_project_fields project_data now) True db of
        (None, db') \<Rightarrow> (Inl project_not_found, db')
      | (Some result, db') \<Rightarrow> (Inr result, db'))"

definition delete_project :: "'f db \<Rightarrow> string \<Rightarrow> string \<Rightarrow> (error + string) \<times> 'f db" where
  "delete_project db pid uid =
     (case delete_one (by_id_owner pid uid) db of
        (deleted_count, db') \<Rightarrow>
          if deleted_count = 0 then (Inl project_not_found, db')
          else (Inr ''Project deleted'', db'))"

section \<open>Task routes\<close>

definition new_task :: "'f task_create \<Rightarrow> string \<Rightarrow> string \<Rightarrow> 'f task" where
  "new_task task_data new_id created =
     \<lparr>task_id = new_id, task_title = tc_title task_data,
      task_description = or_empty (tc_description task_data),
      task_priority = tc_priority task_data, task_status = ''todo'',
      task_due_date = tc_due_date task_data,
      task_estimated_hours = tc_estimated_hours task_data,
      time_entries = [], task_created_at = created, task_completed_at = None\<rparr>"

definition create_task ::
  "'f db \<Rightarrow> string \<Rightarrow> 'f task_create \<Rightarrow> string \<Rightarrow> string \<Rightarrow> string \<Rightarrow> string
     \<Rightarrow> (error + 'f task) \<times> 'f db" where
  "create_task db pid task_data uid new_id created now =
     (let task = new_task task_data new_id created in
      case find_one_and_update (by_id_owner pid uid)
             (\<lambda>p. p\<lparr>tasks := tasks p @ [task], updated_at := now\<rparr>) True db of
        (None, db') \<Rightarrow> (Inl project_not_found, db')
      | (Some result, db') \<Rightarrow> (Inr task, db'))"

text \<open>
  The change \<^verbatim>\<open>update_task\<close> writes into \<^verbatim>\<open>update_dict["completed_at"]\<close>: \<open>None\<close> when
  the key is not set, \<open>Some v\<close> when it is set to \<open>v\<close> (and \<open>v\<close> may be \<^verbatim>\<open>None\<close>).
  \<^verbatim>\<open>update_dict.get("status")\<close> is the status of the body, \<^verbatim>\<open>None\<close> when the body has none.
\<close>

definition completed_at_change :: "'f task_update \<Rightarrow> 'f task \<Rightarrow> string \<Rightarrow> string option option" where
  "completed_at_change task_data t now =
     (if tu_status task_data = Some ''done'' \<and> task_status t \<noteq> ''done'' then Some (Some now)
      else if truthy (tu_status task_data) \<and> tu_status task_data \<noteq> Some ''done'' then Some None
      else None)"

text \<open>\<^verbatim>\<open>tasks[task_index].update(update_dict)\<close>.\<close>

definition merge_task :: "'f task_update \<Rightarrow> string option option \<Rightarrow> 'f task \<Rightarrow> 'f task" where
  "merge_task task_data change t =
     t\<lparr>task_title := (case tu_title task_data of None \<Rightarrow> task_title t | Some v \<Rightarrow> v),
       task_description :=
         (case tu_description task_data of None \<Rightarrow> task_description t | Some v \<Rightarrow> v),
       task_priority := (case tu_priority task_data of None \<Rightarrow> task_priority t | Some v \<Rightarrow> v),
       task_status := (case tu_status task_data of None \<Rightarrow> task_status t | Some v \<Rightarrow> v),
       task_due_date := (case tu_due_date task_data of None \<Rightarrow> task_due_date t | Some v \<Rightarrow> Some v),
       task_estimated_hours :=
         (case tu_estimated_hours task_data of None \<Rightarrow> task_estimated_hours t | Some v \<Rightarrow> Some v),
       task_completed_at := (case change of None \<Rightarrow> task_completed_at t | Some v \<Rightarrow> v)\<rparr>"

definition update_task ::
  "'f db \<Rightarrow> string \<Rightarrow> string \<Rightarrow> 'f task_update \<Rightarrow> string \<Rightarrow> string \<Rightarrow> string
     \<Rightarrow> (error + 'f task) \<times> 'f db" where
  "update_task db pid tid task_data uid now_completed now =
     (case find_one (by_id_owner pid uid) db of
        None \<Rightarrow> (Inl project_not_found, db)
      | Some project \<Rightarrow>
          (case first_index (\<lambda>t. task_id t = tid) (tasks project) of
             None \<Rightarrow> (Inl task_not_found, db)
           | Some task_index \<Rightarrow>
               let old = tasks project ! task_index;
                   new = merge_task task_data (completed_at_change task_data old now_completed) old;
                   tasks' = (tasks project)[task_index := new]
               in (Inr new,
                   update_one (by_id pid) (\<lambda>p. p\<lparr>tasks := tasks', updated_at := now\<rparr>) db)))"

text \<open>\<^verbatim>\<open>{"$pull": {"tasks": {"id": task_id}}}\<close> removes every element with that id.\<close>

definition delete_task ::
  "'f db \<Rightarrow> string \<Rightarrow> string \<Rightarrow> string \<Rightarrow> string \<Rightarrow> (error + string) \<times> 'f db" where
  "delete_task db pid tid uid now =
     (case find_one_and_update (by_id_owner pid uid)
             (\<lambda>p. p\<lparr>tasks := filter (\<lambda>t. task_id t \<noteq> tid) (tasks p), updated_at := now\<rparr>)
             False db of
        (None, db') \<Rightarrow> (Inl project_not_found, db')
      | (Some result, db') \<Rightarrow> (Inr ''Task deleted'', db'))"

section \<open>Time tracking routes\<close>

definition new_time_entry :: "time_entry_create \<Rightarrow> string \<Rightarrow> string \<Rightarrow> time_entry" where
  "new_time_entry time_data new_id created =
     \<lparr>entry_id = new_id, entry_description = or_empty (tec_description time_data),
      duration_minutes = tec_duration_minutes time_data, entry_date = tec_date time_data,
      entry_created_at = created\<rparr>"

definition add_time_entry ::
  "'f db \<Rightarrow> string \<Rightarrow> string \<Rightarrow> time_entry_create \<Rightarrow> string \<Rightarrow> string \<Rightarrow> string \<Rightarrow> string
     \<Rightarrow> (error + time_entry) \<times> 'f db" where
  "add_time_entry db pid tid time_data uid new_id created now =
     (let entry = new_time_entry time_data new_id created in
      case find_one (by_id_owner pid uid) db of
        None \<Rightarrow> (Inl project_not_found, db)
      | Some project \<Rightarrow>
          (case first_index (\<lambda>t. task_id t = tid) (tasks project) of
             None \<Rightarrow> (Inl task_not_found, db)
           | Some task_index \<Rightarrow>
               let old = tasks project ! task_index;
                   tasks' = (tasks project)
                     [task_index := old\<lparr>time_entries := time_entries old @ [entry]\<rparr>]
               in (Inr entry,
                   update_one (by_id pid) (\<lambda>p. p\<lparr>tasks := tasks', updated_at := now\<rparr>) db)))"

definition delete_time_entry ::
  "'f db \<Rightarrow> string \<Rightarrow> string \<Rightarrow> string \<Rightarrow> string \<Rightarrow> string \<Rightarrow> (error + string) \<times> 'f db" where
  "delete_time_entry db pid tid time_id uid now =
     (case find_one (by_id_owner pid uid) db of
        None \<Rightarrow> (Inl project_not_found, db)
      | Some project \<Rightarrow>
          (case first_index (\<lambda>t. task_id t = tid) (tasks project) of
             None \<Rightarrow> (Inl task_not_found, db)
           | Some task_index \<Rightarrow>
               let old = tasks project ! task_index;
                   tasks' = (tasks project)
                     [task_index := old\<lparr>time_entries :=
                        filter (\<lambda>te. entry_id te \<noteq> time_id) (time_entries old)\<rparr>]
               in (Inr ''Time entry deleted'',
                   update_one (by_id pid) (\<lambda>p. p\<lparr>tasks := tasks', updated_at := now\<rparr>) db)))"

section \<open>Milestone routes\<close>

definition new_milestone :: "milestone_create \<Rightarrow> string \<Rightarrow> milestone" where
  "new_milestone milestone_data new_id =
     \<lparr>milestone_id = new_id, milestone_title = mc_title milestone_data,
      milestone_description = or_empty (mc_description milestone_data),
      milestone_due_date = mc_due_date milestone_data,
      completed = False, milestone_completed_at = None\<rparr>"

definition create_milestone ::
  "'f db \<Rightarrow> string \<Rightarrow> milestone_create \<Rightarrow> string \<Rightarrow> string \<Rightarrow> string
     \<Rightarrow> (error + milestone) \<times> 'f db" where
  "create_milestone db pid milestone_data uid new_id now =
     (let milestone = new_milestone milestone_data new_id in
      case find_one_and_update (by_id_owner pid uid)
             (\<lambda>p. p\<lparr>milestones := milestones p @ [milestone], updated_at := now\<rparr>) True db of
        (None, db') \<Rightarrow> (Inl project_not_found, db')
      | (Some result, db') \<Rightarrow> (Inr milestone, db'))"

definition update_milestone ::
  "'f db \<Rightarrow> string \<Rightarrow> string \<Rightarrow> bool \<Rightarrow> string \<Rightarrow> string \<Rightarrow> string
     \<Rightarrow> (error + milestone) \<times> 'f db" where
  "update_milestone db pid mid compl uid now_completed now =
     (case find_one (by_id_owner pid uid) db of
        None \<Rightarrow> (Inl project_not_found, db)
      | Some project \<Rightarrow>
          (case first_index (\<lambda>m. milestone_id m = mid) (milestones project) of
             None \<Rightarrow> (Inl milestone_not_found, db)
           | Some milestone_index \<Rightarrow>
               let old = milestones project ! milestone_index;
                   new = old\<lparr>completed := compl,
                     milestone_completed_at := (if compl then Some now_completed else None)\<rparr>;
                   milestones' = (milestones project)[milestone_index := new]
               in (Inr new,
                   update_one (by_id pid)
                     (\<lambda>p. p\<lparr>milestones := milestones', updated_at := now\<rparr>) db)))"

definition delete_milestone ::
  "'f db \<Rightarrow> string \<Rightarrow> string \<Rightarrow> string \<Rightarrow> string \<Rightarrow> (error + string) \<times> 'f db" where
  "delete_milestone db pid mid uid now =
     (case find_one_and_update (by_id_owner pid uid)
             (\<lambda>p. p\<lparr>milestones := filter (\<lambda>m. milestone_id m \<noteq> mid) (milestones p),
                    updated_at := now\<rparr>)
             False db of
        (None, db') \<Rightarrow> (Inl project_not_found, db')
      | (Some result, db') \<Rightarrow> (Inr ''Milestone deleted'', db'))"

section \<open>Analytics routes\<close>

subsection \<open>What the handlers take from Python\<close>

text \<open>
  \<^verbatim>\<open>int / int\<close>, \<^verbatim>\<open>float * int\<close> and \<^verbatim>\<open>round(float, 1)\<close> on Python floats are parameters
  of the model. \<^verbatim>\<open>round(0, 1)\<close> on the integer \<^verbatim>\<open>0\<close> is the integer \<^verbatim>\<open>0\<close>, so a number of
  the response is an integer or a float.
\<close>

record 'f pyfloat =
  truediv :: "int \<Rightarrow> int \<Rightarrow> 'f"
  times_int :: "'f \<Rightarrow> int \<Rightarrow> 'f"
  round1 :: "'f \<Rightarrow> 'f"

datatype 'f pynum = PyInt int | PyFloat 'f

text \<open>
  A \<^verbatim>\<open>datetime\<close> is naive (no time zone; the number is its wall-clock time) or aware (the
  number is its instant in UTC). Python orders two naive or two aware values and raises
  \<^verbatim>\<open>TypeError\<close> on a naive and an aware one. \<^verbatim>\<open>datetime.fromisoformat\<close> is a parameter of
  the model: it returns a \<^verbatim>\<open>datetime\<close> or raises \<^verbatim>\<open>ValueError\<close>.
\<close>

datatype pydatetime = Naive int | Aware int

datatype pyexc = ValueError | TypeError

fun datetime_gt :: "pydatetime \<Rightarrow> pydatetime \<Rightarrow> pyexc + bool" where
  "datetime_gt (Naive a) (Naive b) = Inr (a > b)"
| "datetime_gt (Aware a) (Aware b) = Inr (a > b)"
| "datetime_gt (Naive a) (Aware b) = Inl TypeError"
| "datetime_gt (Aware a) (Naive b) = Inl TypeError"

text \<open>\<^verbatim>\<open>s.replace('Z', '+00:00')\<close>.\<close>

definition replace_Z :: "string \<Rightarrow> string" where
  "replace_Z s = concat (map (\<lambda>c. if c = CHR ''Z'' then ''+00:00'' else [c]) s)"

subsection \<open>\<^verbatim>\<open>get_analytics_overview\<close>\<close>

record deadline_item =
  di_type :: string
  di_name :: string
  di_deadline :: string
  di_project_id :: string
  di_project_name :: "string option"

text \<open>
  The body of each \<^verbatim>\<open>try\<close>: parse the string, compare with \<^verbatim>\<open>now\<close> (an aware
  \<^verbatim>\<open>datetime\<close>), and append when it is later. The bare \<^verbatim>\<open>except: pass\<close> turns every
  exception of the body into "nothing appended".
\<close>

definition later_than_now :: "(string \<Rightarrow> pyexc + pydatetime) \<Rightarrow> int \<Rightarrow> string \<Rightarrow> bool" where
  "later_than_now fromisoformat now s =
     (case fromisoformat (replace_Z s) of
        Inl e \<Rightarrow> False
      | Inr d \<Rightarrow> (case datetime_gt d (Aware now) of Inl e \<Rightarrow> False | Inr b \<Rightarrow> b))"

definition project_item :: "'f project \<Rightarrow> string \<Rightarrow> deadline_item" where
  "project_item p s =
     \<lparr>di_type = ''project'', di_name = project_name p, di_deadline = s,
      di_project_id = project_id p, di_project_name = None\<rparr>"

definition milestone_item :: "'f project \<Rightarrow> milestone \<Rightarrow> deadline_item" where
  "milestone_item p m =
     \<lparr>di_type = ''milestone'', di_name = milestone_title m, di_deadline = milestone_due_date m,
      di_project_id = project_id p, di_project_name = Some (project_name p)\<rparr>"

definition milestone_step ::
  "(string \<Rightarrow> pyexc + pydatetime) \<Rightarrow> int \<Rightarrow> 'f project \<Rightarrow> milestone
     \<Rightarrow> deadline_item list \<Rightarrow> deadline_item list" where
  "milestone_step fromisoformat now p m upcoming =
     (if \<not> completed m \<and> milestone_due_date m \<noteq> [] then
        (if later_than_now fromisoformat now (milestone_due_date m)
         then upcoming @ [milestone_item p m] else upcoming)
      else upcoming)"

definition deadline_step ::
  "(string \<Rightarrow> pyexc + pydatetime) \<Rightarrow> int \<Rightarrow> 'f project
     \<Rightarrow> deadline_item list \<Rightarrow> deadline_item list" where
  "deadline_step fromisoformat now p upcoming =
     (let upcoming' =
        (case project_deadline p of
           None \<Rightarrow> upcoming
         | Some s \<Rightarrow>
             if s \<noteq> [] \<and> later_than_now fromisoformat now s
             then upcoming @ [project_item p s] else upcoming)
      in fold (milestone_step fromisoformat now p) (milestones p) upcoming')"

record 'f overview =
  total_projects :: int
  active_projects :: int
  completed_projects :: int
  total_tasks :: int
  completed_tasks :: int
  in_progress_tasks :: int
  todo_tasks :: int
  total_time_hours :: 'f
  total_milestones :: int
  completed_milestones :: int
  upcoming_deadlines :: "deadline_item list"
  task_completion_rate :: "'f pynum"

text \<open>\<^verbatim>\<open>sum(1 for x in xs if test(x))\<close>.\<close>

definition sum_ones :: "('a \<Rightarrow> bool) \<Rightarrow> 'a list \<Rightarrow> int" where
  "sum_ones test xs = sum_list (map (\<lambda>x. 1) (filter test xs))"

definition overview_of ::
  "'f pyfloat \<Rightarrow> (string \<Rightarrow> pyexc + pydatetime) \<Rightarrow> int \<Rightarrow> 'f project list \<Rightarrow> 'f overview" where
  "overview_of fl fromisoformat now projects =
     (let n_total_projects = int (length projects);
          n_active_projects = sum_ones (\<lambda>p. project_status p = ''active'') projects;
          n_completed_projects = sum_ones (\<lambda>p. project_status p = ''completed'') projects;
          n_total_tasks = sum_list (map (\<lambda>p. int (length (tasks p))) projects);
          n_completed_tasks =
            sum_list (map (\<lambda>p. sum_ones (\<lambda>t. task_status t = ''done'') (tasks p)) projects);
          n_in_progress_tasks =
            sum_list (map (\<lambda>p. sum_ones (\<lambda>t. task_status t = ''in_progress'') (tasks p)) projects);
          total_time_minutes =
            fold (\<lambda>p acc. fold (\<lambda>t acc. fold (\<lambda>te acc. acc + duration_minutes te)
                    (time_entries t) acc) (tasks p) acc) projects 0;
          n_total_milestones = sum_list (map (\<lambda>p. int (length (milestones p))) projects);
          n_completed_milestones =
            sum_list (map (\<lambda>p. sum_ones completed (milestones p)) projects);
          upcoming = fold (deadline_step fromisoformat now) projects []
      in \<lparr>total_projects = n_total_projects,
          active_projects = n_active_projects,
          completed_projects = n_completed_projects,
          total_tasks = n_total_tasks,
          completed_tasks = n_completed_tasks,
          in_progress_tasks = n_in_progress_tasks,
          todo_tasks = n_total_tasks - n_completed_tasks - n_in_progress_tasks,
          total_time_hours = round1 fl (truediv fl total_time_minutes 60),
          total_milestones = n_total_milestones,
          completed_milestones = n_completed_milestones,
          upcoming_deadlines = take 5 (sort_key di_deadline upcoming),
          task_completion_rate =
            (if n_total_tasks > 0
             then PyFloat (round1 fl (times_int fl (truediv fl n_completed_tasks n_total_tasks) 100))
             else PyInt 0)\<rparr>)"

definition get_analytics_overview ::
  "'f pyfloat \<Rightarrow> (string \<Rightarrow> pyexc + pydatetime) \<Rightarrow> 'f db \<Rightarrow> string \<Rightarrow> int \<Rightarrow> 'f overview" where
  "get_analytics_overview fl fromisoformat db uid now =
     overview_of fl fromisoformat now (find_to_list (by_owner uid) 1000 db)"

subsection \<open>\<^verbatim>\<open>get_time_tracking_analytics\<close>\<close>

record 'f project_time =
  pt_name :: string
  pt_hours :: 'f
  pt_color :: string

record 'f daily_time =
  dt_date :: string
  dt_hours :: 'f

record 'f time_tracking =
  by_project :: "'f project_time list"
  daily :: "'f daily_time list"

text \<open>
  \<^verbatim>\<open>daily_times\<close> is a Python dictionary: an association list in insertion order with one
  entry per key. \<^verbatim>\<open>daily_times.get(date, 0)\<close> is \<open>get0\<close>, and the assignment
  \<^verbatim>\<open>daily_times[date] = v\<close> is \<open>AList.update\<close>.
\<close>

definition get0 :: "(string \<times> int) list \<Rightarrow> string \<Rightarrow> int" where
  "get0 daily_times date = (case map_of daily_times date of None \<Rightarrow> 0 | Some v \<Rightarrow> v)"

text \<open>The body of the loop over the time entries of a task; the state is
  \<^verbatim>\<open>(project_minutes, daily_times)\<close>.\<close>

definition entry_step ::
  "time_entry \<Rightarrow> int \<times> (string \<times> int) list \<Rightarrow> int \<times> (string \<times> int) list" where
  "entry_step te st =
     (case st of (project_minutes, daily_times) \<Rightarrow>
        let minutes = duration_minutes te;
            date = take 10 (entry_date te)
        in (project_minutes + minutes,
            if date \<noteq> [] then AList.update date (get0 daily_times date + minutes) daily_times
            else daily_times))"

text \<open>The body of the loop over the projects; the state is
  \<^verbatim>\<open>(project_times, daily_times)\<close>.\<close>

definition project_step ::
  "'f pyfloat \<Rightarrow> 'f project \<Rightarrow> 'f project_time list \<times> (string \<times> int) list
     \<Rightarrow> 'f project_time list \<times> (string \<times> int) list" where
  "project_step fl p st =
     (case st of (project_times, daily_times) \<Rightarrow>
        (case fold (\<lambda>t acc. fold entry_step (time_entries t) acc) (tasks p) (0, daily_times) of
           (project_minutes, daily_times') \<Rightarrow>
             ((if project_minutes > 0
               then project_times @
                 [\<lparr>pt_name = project_name p,
                   pt_hours = round1 fl (truediv fl project_minutes 60),
                   pt_color = project_color p\<rparr>]
               else project_times),
              daily_times')))"

text \<open>\<^verbatim>\<open>xs[-14:]\<close>.\<close>

definition last14 :: "'a list \<Rightarrow> 'a list" where
  "last14 xs = drop (length xs - 14) xs"

definition time_tracking_of :: "'f pyfloat \<Rightarrow> 'f project list \<Rightarrow> 'f time_tracking" where
  "time_tracking_of fl projects =
     (case fold (project_step fl) projects ([], []) of
        (project_times, daily_times) \<Rightarrow>
          \<lparr>by_project = project_times,
           daily = last14 (map (\<lambda>(date, minutes).
                      \<lparr>dt_date = date, dt_hours = round1 fl (truediv fl minutes 60)\<rparr>)
                    (sort daily_times))\<rparr>)"

definition get_time_tracking_analytics :: "'f pyfloat \<Rightarrow> 'f db \<Rightarrow> string \<Rightarrow> 'f time_tracking" where
  "get_time_tracking_analytics fl db uid =
     time_tracking_of fl (find_to_list (by_owner uid) 1000 db)"

section \<open>Notions used to state the analytics claims\<close>

text \<open>
  The time entries of a project and of a list of projects, the tasks of a list of
  projects, the minutes of a list of entries, the day of an entry (the first ten
  characters of its date), the entries of a day, and the days that have a bucket (the
  non-empty days, ascending, each once). \<open>daily_of\<close> is the dictionary \<^verbatim>\<open>daily_times\<close> after
  the loop body has run over a list of entries.
\<close>

definition project_entries :: "'f project \<Rightarrow> time_entry list" where
  "project_entries p = concat (map time_entries (tasks p))"

definition all_entries :: "'f project list \<Rightarrow> time_entry list" where
  "all_entries ps = concat (map project_entries ps)"

definition all_tasks :: "'f project list \<Rightarrow> 'f task list" where
  "all_tasks ps = concat (map tasks ps)"

definition total_minutes :: "time_entry list \<Rightarrow> int" where
  "total_minutes es = sum_list (map duration_minutes es)"

definition entry_day :: "time_entry \<Rightarrow> string" where
  "entry_day te = take 10 (entry_date te)"

definition bucket_entries :: "string \<Rightarrow> time_entry list \<Rightarrow> time_entry list" where
  "bucket_entries k es = filter (\<lambda>te. entry_day te = k) es"

definition bucket_days :: "time_entry list \<Rightarrow> string list" where
  "bucket_days es = sort (remdups (filter (\<lambda>k. k \<noteq> []) (map entry_day es)))"

definition daily_of :: "time_entry list \<Rightarrow> (string \<times> int) list \<Rightarrow> (string \<times> int) list" where
  "daily_of es daily_times = snd (fold entry_step es (0, daily_times))"

text \<open>A project without its time entries of empty date.\<close>

definition without_undated :: "'f project \<Rightarrow> 'f project" where
  "without_undated p =
     p\<lparr>tasks := map (\<lambda>t. t\<lparr>time_entries := filter (\<lambda>te. entry_date te \<noteq> []) (time_entries t)\<rparr>)
                  (tasks p)\<rparr>"

section \<open>Example data\<close>

text \<open>
  The concrete inputs of the examples below. \<open>float_term\<close> is the free instance of the float
  operations: its values record which operation was applied to which integers, so an
  example shows the arithmetic a handler performs without fixing how Python rounds.
\<close>

datatype float_term = TrueDiv int int | TimesInt float_term int | Round1 float_term

definition symbolic :: "float_term pyfloat" where
  "symbolic = \<lparr>truediv = TrueDiv, times_int = TimesInt, round1 = Round1\<rparr>"

definition design_task :: "float_term task" where
  "design_task =
     \<lparr>task_id = ''t1'', task_title = ''Design'', task_description = [],
      task_priority = ''medium'', task_status = ''done'', task_due_date = None,
      task_estimated_hours = None, time_entries = [],
      task_created_at = ''2024-01-01T09:00:00+00:00'',
      task_completed_at = Some ''2024-01-02T09:00:00+00:00''\<rparr>"

definition review_task :: "float_term task" where
  "review_task =
     \<lparr>task_id = ''t2'', task_title = ''Review'', task_description = [],
      task_priority = ''high'', task_status = ''todo'', task_due_date = None,
      task_estimated_hours = None, time_entries = [],
      task_created_at = ''2024-01-01T10:00:00+00:00'',
      task_completed_at = None\<rparr>"

definition beta_milestone :: milestone where
  "beta_milestone =
     \<lparr>milestone_id = ''m1'', milestone_title = ''Beta'', milestone_description = [],
      milestone_due_date = ''2030-01-01'', completed = True,
      milestone_completed_at = Some ''2024-01-03T09:00:00+00:00''\<rparr>"

definition launch :: "float_term project" where
  "launch =
     \<lparr>project_id = ''p1'', project_name = ''Launch'', project_description = [],
      project_color = ''#4F46E5'', project_status = ''active'',
      project_deadline = Some ''2099-01-01'', owner_id = ''alice'',
      tasks = [design_task, review_task], milestones = [beta_milestone],
      project_created_at = ''2024-01-01T08:00:00+00:00'',
      updated_at = ''2024-01-03T09:00:00+00:00''\<rparr>"

definition rename :: project_update where
  "rename = \<lparr>pu_name = Some ''Relaunch'', pu_description = None, pu_color = None,
     pu_deadline = None, pu_status = None\<rparr>"

definition mark_done :: "float_term task_update" where
  "mark_done = \<lparr>tu_title = None, tu_description = None, tu_priority = None,
     tu_status = Some ''done'', tu_due_date = None, tu_estimated_hours = None\<rparr>"

definition reopen :: "float_term task_update" where
  "reopen = \<lparr>tu_title = Some ''Design v2'', tu_description = None, tu_priority = None,
     tu_status = Some ''in_progress'', tu_due_date = None, tu_estimated_hours = None\<rparr>"

definition retitle :: "float_term task_update" where
  "retitle = \<lparr>tu_title = Some ''Design v2'', tu_description = None, tu_priority = None,
     tu_status = None, tu_due_date = None, tu_estimated_hours = None\<rparr>"

definition blank_status :: "float_term task_update" where
  "blank_status = \<lparr>tu_title = None, tu_description = None, tu_priority = None,
     tu_status = Some [], tu_due_date = None, tu_estimated_hours = None\<rparr>"

definition new_design :: "float_term task_create" where
  "new_design = \<lparr>tc_title = ''Design'', tc_description = None, tc_priority = ''medium'',
     tc_due_date = None, tc_estimated_hours = None\<rparr>"

definition one_hour :: time_entry_create where
  "one_hour = \<lparr>tec_description = None, tec_duration_minutes = 60, tec_date = ''2024-01-01''\<rparr>"

definition new_beta :: milestone_create where
  "new_beta = \<lparr>mc_title = ''Beta'', mc_description = None, mc_due_date = ''2030-01-01''\<rparr>"

definition kickoff_entry :: time_entry where
  "kickoff_entry = \<lparr>entry_id = ''e1'', entry_description = [], duration_minutes = 60,
     entry_date = ''2024-01-01'', entry_created_at = ''2024-01-01T18:00:00+00:00''\<rparr>"

definition followup_entry :: time_entry where
  "followup_entry = \<lparr>entry_id = ''e2'', entry_description = [], duration_minutes = 30,
     entry_date = ''2024-01-02T09:30:00'', entry_created_at = ''2024-01-02T18:00:00+00:00''\<rparr>"

definition undated_entry :: time_entry where
  "undated_entry = \<lparr>entry_id = ''e3'', entry_description = [], duration_minutes = 15,
     entry_date = [], entry_created_at = ''2024-01-03T18:00:00+00:00''\<rparr>"

definition tracked_task :: "float_term task" where
  "tracked_task = design_task\<lparr>time_entries := [kickoff_entry, followup_entry, undated_entry]\<rparr>"

definition tracked :: "float_term project" where
  "tracked = launch\<lparr>tasks := [tracked_task, review_task]\<rparr>"

text \<open>A thousand and one projects of one owner: \<open>filler i\<close> has no task, and its id is
  \<^verbatim>\<open>f\<close> followed by \<open>i\<close> strokes.\<close>

definition filler :: "nat \<Rightarrow> float_term project" where
  "filler i =
     \<lparr>project_id = CHR ''f'' # replicate i (CHR ''1''), project_name = ''Filler'',
      project_description = [], project_color = ''#4F46E5'', project_status = ''on_hold'',
      project_deadline = None, owner_id = ''alice'', tasks = [], milestones = [],
      project_created_at = ''2024-01-01T08:00:00+00:00'',
      updated_at = ''2024-01-01T08:00:00+00:00''\<rparr>"

definition refund_entry :: time_entry where
  "refund_entry = \<lparr>entry_id = ''e4'', entry_description = ''correction'',
     duration_minutes = - 30, entry_date = [],
     entry_created_at = ''2024-01-04T18:00:00+00:00''\<rparr>"

definition refund_project :: "float_term project" where
  "refund_project = launch\<lparr>project_id := ''p2'', project_name := ''Refund'',
     tasks := [review_task\<lparr>time_entries := [refund_entry]\<rparr>], milestones := []\<rparr>"

definition overflow_project :: "float_term project" where
  "overflow_project = launch\<lparr>project_id := ''p3'', project_name := ''Overflow'',
     tasks := [design_task\<lparr>time_entries := [kickoff_entry]\<rparr>], milestones := []\<rparr>"

definition fillers :: "nat \<Rightarrow> float_term project list" where
  "fillers n = map filler [0..<n]"

definition crowded_db :: "float_term db" where
  "crowded_db = refund_project # fillers 999 @ [overflow_project]"

text \<open>An instance of \<^verbatim>\<open>datetime.fromisoformat\<close> on the strings of the examples: a date
  alone parses to a naive \<^verbatim>\<open>datetime\<close>, a time with an offset to an aware one (seconds
  since 1970), anything else raises \<^verbatim>\<open>ValueError\<close>.\<close>

definition example_fromisoformat :: "string \<Rightarrow> pyexc + pydatetime" where
  "example_fromisoformat s =
     (if s = ''2099-01-01'' then Inr (Naive 4070908800)
      else if s = ''2030-01-01'' then Inr (Naive 1893456000)
      else if s = ''2099-01-01T00:00:00+00:00'' then Inr (Aware 4070908800)
      else if s = ''2030-01-01T00:00:00+00:00'' then Inr (Aware 1893456000)
      else if s = ''2020-01-01T00:00:00+00:00'' then Inr (Aware 1577836800)
      else Inl ValueError)"

definition full_db :: "float_term db" where
  "full_db = fillers 1000 @ [overflow_project]"

definition late_project :: "float_term project" where
  "late_project = launch\<lparr>project_id := ''p4'', project_name := ''Late'',
     tasks := [review_task\<lparr>time_entries := [undated_entry]\<rparr>], milestones := []\<rparr>"

definition undated_db :: "float_term db" where
  "undated_db = refund_project # fillers 999 @ [late_project]"

definition open_milestone :: milestone where
  "open_milestone = \<lparr>milestone_id = ''m2'', milestone_title = ''M'', milestone_description = [],
     milestone_due_date = ''2030-01-01'', completed = False, milestone_completed_at = None\<rparr>"

definition scenario :: "float_term project" where
  "scenario = launch\<lparr>tasks := [design_task], milestones := [open_milestone]\<rparr>"

section \<open>Facts about the document store\<close>

lemma by_id_owner_fun: "by_id_owner pid uid = (\<lambda>p. project_id p = pid \<and> owner_id p = uid)"
  by (rule ext) (simp add: by_id_owner_def)

lemma by_id_fun: "by_id pid = (\<lambda>p. project_id p = pid)"
  by (rule ext) (simp add: by_id_def)

lemma by_owner_fun: "by_owner uid = (\<lambda>p. owner_id p = uid)"
  by (rule ext) (simp add: by_owner_def)

lemma find_one_None_iff: "find_one q coll = None \<longleftrightarrow> (\<forall>d \<in> set coll. \<not> q d)"
  by (auto simp: find_one_def find_None_iff)

lemma find_one_SomeD: "find_one q coll = Some d \<Longrightarrow> d \<in> set coll \<and> q d"
  by (auto simp: find_one_def find_Some_iff)

lemma find_one_first_index: "find_one q coll = map_option (\<lambda>i. coll ! i) (first_index q coll)"
  by (induction coll) (simp_all add: find_one_def option.map_comp comp_def)

lemma first_index_SomeD: "first_index P xs = Some i \<Longrightarrow> i < length xs \<and> P (xs ! i) \<and> (\<forall>j<i. \<not> P (xs ! j))"
proof (induction xs arbitrary: i)
  case Nil
  then show ?case by simp
next
  case (Cons x xs)
  show ?case
  proof (cases "P x")
    case True
    with Cons.prems show ?thesis by simp
  next
    case False
    with Cons.prems obtain k where k: "first_index P xs = Some k" "i = Suc k" by auto
    from Cons.IH [OF k(1)] False k(2) show ?thesis
      by (auto simp: less_Suc_eq_0_disj)
  qed
qed

lemma first_index_None_iff: "first_index P xs = None \<longleftrightarrow> (\<forall>x \<in> set xs. \<not> P x)"
  by (induction xs) auto

lemma update_one_first_index:
  "update_one q f coll = (case first_index q coll of None \<Rightarrow> coll | Some i \<Rightarrow> coll[i := f (coll ! i)])"
  by (induction coll) (auto split: option.splits)

lemma update_one_no_match: "find_one q coll = None \<Longrightarrow> update_one q f coll = coll"
  by (induction coll) (auto simp: find_one_def split: if_splits)

lemma find_one_update_one:
  "find_one q coll = Some d \<Longrightarrow> q' (f d) \<Longrightarrow> (\<And>x. x \<in> set coll \<Longrightarrow> q' x \<Longrightarrow> q x)
     \<Longrightarrow> find_one q' (update_one q f coll) = Some (f d)"
  by (induction coll) (auto simp: find_one_def split: if_splits)

lemma by_id_unique:
  "distinct (map project_id db) \<Longrightarrow> find_one (by_id_owner pid uid) db = Some p
     \<Longrightarrow> find_one (by_id pid) db = Some p"
proof (induction db)
  case Nil
  then show ?case by (simp add: find_one_def)
next
  case (Cons a db)
  show ?case
  proof (cases "project_id a = pid")
    case True
    have "owner_id a = uid"
    proof (rule ccontr)
      assume "owner_id a \<noteq> uid"
      with Cons.prems(2) have "find_one (by_id_owner pid uid) db = Some p"
        by (simp add: find_one_def by_id_owner_fun)
      then have "p \<in> set db" "project_id p = pid"
        by (auto dest: find_one_SomeD simp: by_id_owner_def)
      with True Cons.prems(1) show False by (auto simp: image_iff)
    qed
    with True Cons.prems(2) show ?thesis
      by (simp add: find_one_def by_id_fun by_id_owner_fun)
  next
    case False
    with Cons show ?thesis
      by (simp add: find_one_def by_id_fun by_id_owner_fun)
  qed
qed

lemma delete_one_count: "fst (delete_one q coll) = 0 \<longleftrightarrow> find_one q coll = None"
  by (induction coll) (auto simp: find_one_def split: prod.splits)

lemma delete_one_no_match: "find_one q coll = None \<Longrightarrow> delete_one q coll = (0, coll)"
  by (induction coll) (auto simp: find_one_def split: if_splits)

lemma length_update_one: "length (update_one q f coll) = length coll"
  by (induction coll) auto

lemma owner_no_match:
  "distinct (map project_id db) \<Longrightarrow> p \<in> set db \<Longrightarrow> owner_id p \<noteq> uid
     \<Longrightarrow> find_one (by_id_owner (project_id p) uid) db = None"
  by (force simp: find_one_None_iff by_id_owner_def distinct_map inj_on_def)

lemma find_one_index:
  "find_one q coll = Some d \<Longrightarrow> \<exists>i. first_index q coll = Some i \<and> i < length coll \<and> coll ! i = d"
  by (auto simp: find_one_first_index dest: first_index_SomeD)

section \<open>Project update (\<^verbatim>\<open>update_project\<close>)\<close>

text \<open>
  Claim C6. \<^verbatim>\<open>update_project\<close> applies exactly the fields of the body that are present and
  not null, always sets \<^verbatim>\<open>updated_at\<close> to the current time, and leaves every other field
  (those whose value in the body is absent or null, and the id, owner, tasks, milestones
  and creation time) as it was. The updated document replaces the old one in the
  collection, at the same place, and is what \<^verbatim>\<open>get_project\<close> then returns. When no project
  has the given id and owner, the handler raises 404 and the collection is unchanged.
\<close>

theorem update_project_partial:
  "(find_one (by_id_owner pid uid) db = None \<longrightarrow>
      update_project db pid project_data uid now = (Inl project_not_found, db)) \<and>
   (\<forall>p. find_one (by_id_owner pid uid) db = Some p \<longrightarrow>
      (\<exists>p' i. update_project db pid project_data uid now = (Inr p', db[i := p']) \<and>
         i < length db \<and> db ! i = p \<and>
         get_project (db[i := p']) pid uid = Inr p' \<and>
         project_name p' = (case pu_name project_data of None \<Rightarrow> project_name p | Some v \<Rightarrow> v) \<and>
         project_description p' =
           (case pu_description project_data of None \<Rightarrow> project_description p | Some v \<Rightarrow> v) \<and>
         project_color p' = (case pu_color project_data of None \<Rightarrow> project_color p | Some v \<Rightarrow> v) \<and>
         project_deadline p' =
           (case pu_deadline project_data of None \<Rightarrow> project_deadline p | Some v \<Rightarrow> Some v) \<and>
         project_status p' =
           (case pu_status project_data of None \<Rightarrow> project_status p | Some v \<Rightarrow> v) \<and>
         updated_at p' = now \<and>
         project_id p' = project_id p \<and> owner_id p' = owner_id p \<and>
         tasks p' = tasks p \<and> milestones p' = milestones p \<and>
         project_created_at p' = project_created_at p))"
proof (intro conjI allI impI)
  assume "find_one (by_id_owner pid uid) db = None"
  then show "update_project db pid project_data uid now = (Inl project_not_found, db)"
    by (simp add: update_project_def find_one_and_update_def update_one_no_match)
next
  fix p
  assume found: "find_one (by_id_owner pid uid) db = Some p"
  define p' where "p' = set_project_fields project_data now p"
  from find_one_index [OF found] obtain i where
    i: "first_index (by_id_owner pid uid) db = Some i" "i < length db" "db ! i = p"
    by blast
  have upd: "update_one (by_id_owner pid uid) (set_project_fields project_data now) db = db[i := p']"
    by (simp add: update_one_first_index i p'_def)
  have res: "update_project db pid project_data uid now = (Inr p', db[i := p'])"
    by (simp add: update_project_def find_one_and_update_def found upd p'_def)
  from find_one_SomeD [OF found] have q: "by_id_owner pid uid p" by simp
  then have q': "by_id_owner pid uid p'"
    by (simp add: by_id_owner_def p'_def set_project_fields_def)
  have "find_one (by_id_owner pid uid)
          (update_one (by_id_owner pid uid) (set_project_fields project_data now) db) = Some p'"
    unfolding p'_def
    by (rule find_one_update_one [OF found]) (use q' in \<open>simp_all add: p'_def\<close>)
  then have get: "get_project (db[i := p']) pid uid = Inr p'"
    by (simp add: get_project_def upd)
  show "\<exists>p' i. update_project db pid project_data uid now = (Inr p', db[i := p']) \<and>
         i < length db \<and> db ! i = p \<and>
         get_project (db[i := p']) pid uid = Inr p' \<and>
         project_name p' = (case pu_name project_data of None \<Rightarrow> project_name p | Some v \<Rightarrow> v) \<and>
         project_description p' =
           (case pu_description project_data of None \<Rightarrow> project_description p | Some v \<Rightarrow> v) \<and>
         project_color p' = (case pu_color project_data of None \<Rightarrow> project_color p | Some v \<Rightarrow> v) \<and>
         project_deadline p' =
           (case pu_deadline project_data of None \<Rightarrow> project_deadline p | Some v \<Rightarrow> Some v) \<and>
         project_status p' =
           (case pu_status project_data of None \<Rightarrow> project_status p | Some v \<Rightarrow> v) \<and>
         updated_at p' = now \<and>
         project_id p' = project_id p \<and> owner_id p' = owner_id p \<and>
         tasks p' = tasks p \<and> milestones p' = milestones p \<and>
         project_created_at p' = project_created_at p"
    apply (rule exI [of _ p'], rule exI [of _ i])
    using res i(2,3) get
    apply (simp add: p'_def set_project_fields_def)
    done
qed

theorem update_project_partial_witness:
  "find_one (by_id_owner ''p1'' ''alice'') [launch] = Some launch \<and>
   (\<exists>p'. fst (update_project [launch] ''p1'' rename ''alice'' ''2024-02-01T00:00:00+00:00'')
              = Inr p' \<and>
      project_name p' = ''Relaunch'' \<and> project_color p' = ''#4F46E5'' \<and>
      project_deadline p' = Some ''2099-01-01'' \<and>
      updated_at p' = ''2024-02-01T00:00:00+00:00'' \<and> tasks p' = [design_task, review_task]) \<and>
   find_one (by_id_owner ''p1'' ''bob'') [launch] = None \<and>
   update_project [launch] ''p1'' rename ''bob'' ''2024-02-01T00:00:00+00:00''
     = (Inl project_not_found, [launch])"
proof -
  have found: "find_one (by_id_owner ''p1'' ''alice'') [launch] = Some launch"
    by (simp add: find_one_def by_id_owner_def launch_def)
  have missing: "find_one (by_id_owner ''p1'' ''bob'') [launch] = None"
    by (simp add: find_one_def by_id_owner_def launch_def)
  note inst = update_project_partial [of "''p1''" _ "[launch]" rename "''2024-02-01T00:00:00+00:00''"]
  from inst [of "''alice''", THEN conjunct2, rule_format, OF found]
  have a: "\<exists>p'. fst (update_project [launch] ''p1'' rename ''alice'' ''2024-02-01T00:00:00+00:00'')
              = Inr p' \<and>
      project_name p' = ''Relaunch'' \<and> project_color p' = ''#4F46E5'' \<and>
      project_deadline p' = Some ''2099-01-01'' \<and>
      updated_at p' = ''2024-02-01T00:00:00+00:00'' \<and> tasks p' = [design_task, review_task]"
    by (auto simp: rename_def launch_def)
  from inst [of "''bob''", THEN conjunct1, rule_format, OF missing]
  show ?thesis using found missing a by simp
qed

lemma stored_by_id_owner:
  assumes "find_one (by_id_owner pid uid) db = Some p"
    and "project_id (f p) = project_id p" and "owner_id (f p) = owner_id p"
  shows "get_project (update_one (by_id_owner pid uid) f db) pid uid = Inr (f p)"
proof -
  from find_one_SomeD [OF assms(1)] have "by_id_owner pid uid p" by simp
  with assms(2,3) have "by_id_owner pid uid (f p)" by (simp add: by_id_owner_def)
  then have "find_one (by_id_owner pid uid) (update_one (by_id_owner pid uid) f db) = Some (f p)"
    by (intro find_one_update_one [OF assms(1)]) simp_all
  then show ?thesis by (simp add: get_project_def)
qed

lemma stored_by_id:
  assumes "distinct (map project_id db)" and "find_one (by_id_owner pid uid) db = Some p"
    and "project_id (f p) = project_id p" and "owner_id (f p) = owner_id p"
  shows "get_project (update_one (by_id pid) f db) pid uid = Inr (f p)"
proof -
  from find_one_SomeD [OF assms(2)] have "by_id_owner pid uid p" by simp
  with assms(3,4) have q: "by_id_owner pid uid (f p)" by (simp add: by_id_owner_def)
  have "find_one (by_id_owner pid uid) (update_one (by_id pid) f db) = Some (f p)"
    using by_id_unique [OF assms(1,2)] q
    by (intro find_one_update_one [where q = "by_id pid" and q' = "by_id_owner pid uid"])
       (simp_all add: by_id_owner_def by_id_def)
  then show ?thesis by (simp add: get_project_def)
qed

section \<open>Milestone completion toggle (\<^verbatim>\<open>update_milestone\<close>)\<close>

text \<open>
  Claim C4. \<^verbatim>\<open>update_milestone\<close> sets \<^verbatim>\<open>completed\<close> of the located milestone to the
  boolean of the request and \<^verbatim>\<open>completed_at\<close> to the current time when that boolean is true
  and to null when it is false. Nothing in the statement depends on the milestone's
  previous \<^verbatim>\<open>completed\<close>: the rule is unconditional. The other fields of the milestone
  stay, and the project is stored with the changed milestone at the same index.
\<close>

theorem update_milestone_toggle:
  assumes "find_one (by_id_owner pid uid) db = Some p"
    and "first_index (\<lambda>m. milestone_id m = mid) (milestones p) = Some i"
    and "distinct (map project_id db)"
  shows "\<exists>m' db'. update_milestone db pid mid compl uid now_completed now = (Inr m', db') \<and>
      completed m' = compl \<and>
      milestone_completed_at m' = (if compl then Some now_completed else None) \<and>
      milestone_id m' = mid \<and>
      milestone_title m' = milestone_title (milestones p ! i) \<and>
      milestone_description m' = milestone_description (milestones p ! i) \<and>
      milestone_due_date m' = milestone_due_date (milestones p ! i) \<and>
      get_project db' pid uid = Inr (p\<lparr>milestones := (milestones p)[i := m'], updated_at := now\<rparr>)"
proof -
  define m' where "m' = (milestones p ! i)\<lparr>completed := compl,
     milestone_completed_at := (if compl then Some now_completed else None)\<rparr>"
  define f where "f = (\<lambda>q :: 'a project. q\<lparr>milestones := (milestones p)[i := m'], updated_at := now\<rparr>)"
  have res: "update_milestone db pid mid compl uid now_completed now
      = (Inr m', update_one (by_id pid) f db)"
    by (simp add: update_milestone_def assms(1,2) Let_def m'_def f_def)
  have stored: "get_project (update_one (by_id pid) f db) pid uid = Inr (f p)"
    by (rule stored_by_id [OF assms(3,1)]) (simp_all add: f_def)
  from first_index_SomeD [OF assms(2)] have "milestone_id (milestones p ! i) = mid" by simp
  then have "milestone_id m' = mid" by (simp add: m'_def)
  with res stored show ?thesis
    by (intro exI [of _ m'] exI [of _ "update_one (by_id pid) f db"]) (simp add: m'_def f_def)
qed

theorem update_milestone_toggle_witness:
  "find_one (by_id_owner ''p1'' ''alice'') [launch] = Some launch \<and>
   first_index (\<lambda>m. milestone_id m = ''m1'') (milestones launch) = Some 0 \<and>
   distinct (map project_id [launch]) \<and>
   completed (milestones launch ! 0) \<and>
   (\<exists>m'. fst (update_milestone [launch] ''p1'' ''m1'' True ''alice''
              ''2024-03-01T00:00:00+00:00'' ''2024-03-01T00:00:01+00:00'') = Inr m' \<and>
         completed m' \<and> milestone_completed_at m' = Some ''2024-03-01T00:00:00+00:00'') \<and>
   (\<exists>m'. fst (update_milestone [launch] ''p1'' ''m1'' False ''alice''
              ''2024-03-01T00:00:00+00:00'' ''2024-03-01T00:00:01+00:00'') = Inr m' \<and>
         \<not> completed m' \<and> milestone_completed_at m' = None)"
proof -
  have a: "find_one (by_id_owner ''p1'' ''alice'') [launch] = Some launch"
    by (simp add: find_one_def by_id_owner_def launch_def)
  have b: "first_index (\<lambda>m. milestone_id m = ''m1'') (milestones launch) = Some 0"
    by (simp add: launch_def beta_milestone_def)
  have c: "distinct (map project_id [launch])" by simp
  have d: "completed (milestones launch ! 0)" by (simp add: launch_def beta_milestone_def)
  note inst = update_milestone_toggle [OF a b c, of _ "''2024-03-01T00:00:00+00:00''"
      "''2024-03-01T00:00:01+00:00''"]
  from inst [of True] have e: "\<exists>m'. fst (update_milestone [launch] ''p1'' ''m1'' True ''alice''
              ''2024-03-01T00:00:00+00:00'' ''2024-03-01T00:00:01+00:00'') = Inr m' \<and>
         completed m' \<and> milestone_completed_at m' = Some ''2024-03-01T00:00:00+00:00''"
    by auto
  from inst [of False] have f: "\<exists>m'. fst (update_milestone [launch] ''p1'' ''m1'' False ''alice''
              ''2024-03-01T00:00:00+00:00'' ''2024-03-01T00:00:01+00:00'') = Inr m' \<and>
         \<not> completed m' \<and> milestone_completed_at m' = None"
    by auto
  from a b c d e f show ?thesis by blast
qed

section \<open>Task update (\<^verbatim>\<open>update_task\<close>)\<close>

text \<open>
  What \<^verbatim>\<open>update_task\<close> does on a located task. When the body's status is \<^verbatim>\<open>done\<close> and the
  task was not \<^verbatim>\<open>done\<close>, \<^verbatim>\<open>completed_at\<close> of the updated task is the current time; when the
  body's status is a non-empty string other than \<^verbatim>\<open>done\<close> (so for \<^verbatim>\<open>todo\<close> and
  \<^verbatim>\<open>in_progress\<close>), it is null; when the body has no status, it keeps its value. Every other
  field is the body's value where the body has one and the task's old value otherwise; id,
  time entries and creation time stay. The project is stored with the updated task at the
  same index.
\<close>

lemma update_task_completed_at:
  assumes "find_one (by_id_owner pid uid) db = Some p"
    and "first_index (\<lambda>t. task_id t = tid) (tasks p) = Some i"
    and "distinct (map project_id db)"
  shows "\<exists>t' db'. update_task db pid tid task_data uid now_completed now = (Inr t', db') \<and>
      (tu_status task_data = Some ''done'' \<and> task_status (tasks p ! i) \<noteq> ''done''
         \<longrightarrow> task_completed_at t' = Some now_completed) \<and>
      (\<forall>s. tu_status task_data = Some s \<and> s \<noteq> ''done'' \<and> s \<noteq> []
         \<longrightarrow> task_completed_at t' = None) \<and>
      (tu_status task_data = None \<longrightarrow> task_completed_at t' = task_completed_at (tasks p ! i)) \<and>
      task_title t' = (case tu_title task_data of None \<Rightarrow> task_title (tasks p ! i) | Some v \<Rightarrow> v) \<and>
      task_description t' =
        (case tu_description task_data of None \<Rightarrow> task_description (tasks p ! i) | Some v \<Rightarrow> v) \<and>
      task_priority t' =
        (case tu_priority task_data of None \<Rightarrow> task_priority (tasks p ! i) | Some v \<Rightarrow> v) \<and>
      task_status t' =
        (case tu_status task_data of None \<Rightarrow> task_status (tasks p ! i) | Some v \<Rightarrow> v) \<and>
      task_due_date t' =
        (case tu_due_date task_data of None \<Rightarrow> task_due_date (tasks p ! i) | Some v \<Rightarrow> Some v) \<and>
      task_estimated_hours t' =
        (case tu_estimated_hours task_data of None \<Rightarrow> task_estimated_hours (tasks p ! i)
         | Some v \<Rightarrow> Some v) \<and>
      task_id t' = tid \<and> time_entries t' = time_entries (tasks p ! i) \<and>
      task_created_at t' = task_created_at (tasks p ! i) \<and>
      get_project db' pid uid = Inr (p\<lparr>tasks := (tasks p)[i := t'], updated_at := now\<rparr>)"
proof -
  define old where "old = tasks p ! i"
  define t' where "t' = merge_task task_data (completed_at_change task_data old now_completed) old"
  define f where "f = (\<lambda>q :: 'a project. q\<lparr>tasks := (tasks p)[i := t'], updated_at := now\<rparr>)"
  have res: "update_task db pid tid task_data uid now_completed now
      = (Inr t', update_one (by_id pid) f db)"
    by (simp add: update_task_def assms(1,2) Let_def t'_def f_def old_def)
  have stored: "get_project (update_one (by_id pid) f db) pid uid = Inr (f p)"
    by (rule stored_by_id [OF assms(3,1)]) (simp_all add: f_def)
  from first_index_SomeD [OF assms(2)] have "task_id old = tid" by (simp add: old_def)
  then have id: "task_id t' = tid" by (simp add: t'_def merge_task_def)
  have c1: "tu_status task_data = Some ''done'' \<and> task_status old \<noteq> ''done''
         \<longrightarrow> task_completed_at t' = Some now_completed"
    by (simp add: t'_def merge_task_def completed_at_change_def)
  have c2: "\<forall>s. tu_status task_data = Some s \<and> s \<noteq> ''done'' \<and> s \<noteq> []
         \<longrightarrow> task_completed_at t' = None"
    by (simp add: t'_def merge_task_def completed_at_change_def truthy_def)
  have c3: "tu_status task_data = None \<longrightarrow> task_completed_at t' = task_completed_at old"
    by (simp add: t'_def merge_task_def completed_at_change_def truthy_def)
  have fields: "task_title t' = (case tu_title task_data of None \<Rightarrow> task_title old | Some v \<Rightarrow> v)"
    "task_description t' =
        (case tu_description task_data of None \<Rightarrow> task_description old | Some v \<Rightarrow> v)"
    "task_priority t' = (case tu_priority task_data of None \<Rightarrow> task_priority old | Some v \<Rightarrow> v)"
    "task_status t' = (case tu_status task_data of None \<Rightarrow> task_status old | Some v \<Rightarrow> v)"
    "task_due_date t' = (case tu_due_date task_data of None \<Rightarrow> task_due_date old | Some v \<Rightarrow> Some v)"
    "task_estimated_hours t' =
        (case tu_estimated_hours task_data of None \<Rightarrow> task_estimated_hours old | Some v \<Rightarrow> Some v)"
    "time_entries t' = time_entries old" "task_created_at t' = task_created_at old"
    by (simp_all add: t'_def merge_task_def)
  show ?thesis
    apply (rule exI [of _ t'], rule exI [of _ "update_one (by_id pid) f db"])
    using res stored id c1 c2 c3 fields
    unfolding old_def [symmetric]
    apply (simp add: f_def)
    done
qed

lemma update_task_completed_at_examples:
  "find_one (by_id_owner ''p1'' ''alice'') [launch] = Some launch \<and>
   first_index (\<lambda>t. task_id t = ''t2'') (tasks launch) = Some 1 \<and>
   first_index (\<lambda>t. task_id t = ''t1'') (tasks launch) = Some 0 \<and>
   distinct (map project_id [launch]) \<and>
   tu_status mark_done = Some ''done'' \<and> task_status (tasks launch ! 1) \<noteq> ''done'' \<and>
   (\<exists>t'. fst (update_task [launch] ''p1'' ''t2'' mark_done ''alice''
              ''2024-03-01T00:00:00+00:00'' ''2024-03-01T00:00:01+00:00'') = Inr t' \<and>
         task_status t' = ''done'' \<and> task_completed_at t' = Some ''2024-03-01T00:00:00+00:00'') \<and>
   tu_status reopen = Some ''in_progress'' \<and>
   (\<exists>t'. fst (update_task [launch] ''p1'' ''t1'' reopen ''alice''
              ''2024-03-01T00:00:00+00:00'' ''2024-03-01T00:00:01+00:00'') = Inr t' \<and>
         task_status t' = ''in_progress'' \<and> task_title t' = ''Design v2'' \<and>
         task_completed_at t' = None) \<and>
   tu_status retitle = None \<and>
   (\<exists>t'. fst (update_task [launch] ''p1'' ''t1'' retitle ''alice''
              ''2024-03-01T00:00:00+00:00'' ''2024-03-01T00:00:01+00:00'') = Inr t' \<and>
         task_status t' = ''done'' \<and> task_title t' = ''Design v2'' \<and>
         task_completed_at t' = Some ''2024-01-02T09:00:00+00:00'')"
proof -
  have a: "find_one (by_id_owner ''p1'' ''alice'') [launch] = Some launch"
    by (simp add: find_one_def by_id_owner_def launch_def)
  have b1: "first_index (\<lambda>t. task_id t = ''t2'') (tasks launch) = Some 1"
    by (simp add: launch_def design_task_def review_task_def)
  have b0: "first_index (\<lambda>t. task_id t = ''t1'') (tasks launch) = Some 0"
    by (simp add: launch_def design_task_def review_task_def)
  have c: "distinct (map project_id [launch])" by simp
  have d: "tu_status mark_done = Some ''done''" "task_status (tasks launch ! 1) \<noteq> ''done''"
    "tu_status reopen = Some ''in_progress''" "tu_status retitle = None"
    by (simp_all add: mark_done_def reopen_def retitle_def launch_def review_task_def)
  have old: "tasks launch ! 0 = design_task" "tasks launch ! 1 = review_task"
    by (simp_all add: launch_def)
  from update_task_completed_at [OF a b1 c, of mark_done "''2024-03-01T00:00:00+00:00''"
      "''2024-03-01T00:00:01+00:00''"]
  have e: "\<exists>t'. fst (update_task [launch] ''p1'' ''t2'' mark_done ''alice''
              ''2024-03-01T00:00:00+00:00'' ''2024-03-01T00:00:01+00:00'') = Inr t' \<and>
         task_status t' = ''done'' \<and> task_completed_at t' = Some ''2024-03-01T00:00:00+00:00''"
    unfolding old by (auto simp: mark_done_def review_task_def)
  from update_task_completed_at [OF a b0 c, of reopen "''2024-03-01T00:00:00+00:00''"
      "''2024-03-01T00:00:01+00:00''"]
  have f: "\<exists>t'. fst (update_task [launch] ''p1'' ''t1'' reopen ''alice''
              ''2024-03-01T00:00:00+00:00'' ''2024-03-01T00:00:01+00:00'') = Inr t' \<and>
         task_status t' = ''in_progress'' \<and> task_title t' = ''Design v2'' \<and>
         task_completed_at t' = None"
    unfolding old by (auto simp: reopen_def design_task_def)
  from update_task_completed_at [OF a b0 c, of retitle "''2024-03-01T00:00:00+00:00''"
      "''2024-03-01T00:00:01+00:00''"]
  have g: "\<exists>t'. fst (update_task [launch] ''p1'' ''t1'' retitle ''alice''
              ''2024-03-01T00:00:00+00:00'' ''2024-03-01T00:00:01+00:00'') = Inr t' \<and>
         task_status t' = ''done'' \<and> task_title t' = ''Design v2'' \<and>
         task_completed_at t' = Some ''2024-01-02T09:00:00+00:00''"
    unfolding old by (auto simp: retitle_def design_task_def)
  from a b1 b0 c d e f g show ?thesis by blast
qed

text \<open>
  Claim C1 says that a supplied status other than \<^verbatim>\<open>done\<close> sets \<^verbatim>\<open>completed_at\<close> to null.
  The handler breaks this for the empty string. The body \<^verbatim>\<open>{"status": ""}\<close> supplies a
  status (it is not \<^verbatim>\<open>None\<close>, so it stays in \<^verbatim>\<open>update_dict\<close> and is merged into the task),
  but the guard \<^verbatim>\<open>update_dict.get("status") and ...\<close> tests it for truth and the empty
  string is false. On the finished task \<^verbatim>\<open>t1\<close> of the example project the handler returns
  the task with status \<^verbatim>\<open>""\<close> and its old, non-null \<^verbatim>\<open>completed_at\<close>.
\<close>

theorem update_task_empty_status_keeps_completed_at:
  "tu_status blank_status = Some [] \<and>
   task_status design_task = ''done'' \<and>
   fst (update_task [launch] ''p1'' ''t1'' blank_status ''alice''
          ''2024-03-01T00:00:00+00:00'' ''2024-03-01T00:00:01+00:00'')
     = Inr (design_task\<lparr>task_status := []\<rparr>) \<and>
   task_completed_at (design_task\<lparr>task_status := []\<rparr>) = Some ''2024-01-02T09:00:00+00:00''"
  by (simp add: update_task_def find_one_def by_id_owner_def launch_def design_task_def
      review_task_def blank_status_def merge_task_def completed_at_change_def truthy_def Let_def)

section \<open>Removing a task or a milestone (\<^verbatim>\<open>delete_task\<close>, \<^verbatim>\<open>delete_milestone\<close>)\<close>

text \<open>
  Claim C5. On a project the caller owns, \<^verbatim>\<open>delete_task\<close> and \<^verbatim>\<open>delete_milestone\<close> succeed
  whether or not an element has the given id: the stored sequence is the old one without
  the elements of that id, so it is the old sequence itself when no element has the id.
  When no project has the given id and owner (no project of that id, or one of another
  owner), both raise 404 and the collection is unchanged.
\<close>

theorem delete_nested_idempotent:
  "(\<forall>p. find_one (by_id_owner pid uid) db = Some p \<longrightarrow>
      (\<exists>db'. delete_task db pid tid uid now = (Inr ''Task deleted'', db') \<and>
         get_project db' pid uid =
           Inr (p\<lparr>tasks := filter (\<lambda>t. task_id t \<noteq> tid) (tasks p), updated_at := now\<rparr>) \<and>
         (tid \<notin> task_id ` set (tasks p) \<longrightarrow>
            get_project db' pid uid = Inr (p\<lparr>updated_at := now\<rparr>))) \<and>
      (\<exists>db'. delete_milestone db pid mid uid now = (Inr ''Milestone deleted'', db') \<and>
         get_project db' pid uid =
           Inr (p\<lparr>milestones := filter (\<lambda>m. milestone_id m \<noteq> mid) (milestones p),
                  updated_at := now\<rparr>) \<and>
         (mid \<notin> milestone_id ` set (milestones p) \<longrightarrow>
            get_project db' pid uid = Inr (p\<lparr>updated_at := now\<rparr>)))) \<and>
   (\<not> (\<exists>p \<in> set db. project_id p = pid \<and> owner_id p = uid) \<longrightarrow>
      delete_task db pid tid uid now = (Inl project_not_found, db) \<and>
      delete_milestone db pid mid uid now = (Inl project_not_found, db))"
proof (intro conjI allI impI)
  fix p
  assume found: "find_one (by_id_owner pid uid) db = Some p"
  define f where "f = (\<lambda>q :: 'a project.
     q\<lparr>tasks := filter (\<lambda>t. task_id t \<noteq> tid) (tasks q), updated_at := now\<rparr>)"
  define g where "g = (\<lambda>q :: 'a project.
     q\<lparr>milestones := filter (\<lambda>m. milestone_id m \<noteq> mid) (milestones q), updated_at := now\<rparr>)"
  have rt: "delete_task db pid tid uid now
      = (Inr ''Task deleted'', update_one (by_id_owner pid uid) f db)"
    by (simp add: delete_task_def find_one_and_update_def found f_def)
  have st: "get_project (update_one (by_id_owner pid uid) f db) pid uid = Inr (f p)"
    by (rule stored_by_id_owner [OF found]) (simp_all add: f_def)
  have nt: "tid \<notin> task_id ` set (tasks p) \<longrightarrow> f p = p\<lparr>updated_at := now\<rparr>"
  proof
    assume "tid \<notin> task_id ` set (tasks p)"
    then have "filter (\<lambda>t. task_id t \<noteq> tid) (tasks p) = tasks p"
      by (intro filter_True) auto
    then show "f p = p\<lparr>updated_at := now\<rparr>" by (simp add: f_def)
  qed
  show "\<exists>db'. delete_task db pid tid uid now = (Inr ''Task deleted'', db') \<and>
         get_project db' pid uid =
           Inr (p\<lparr>tasks := filter (\<lambda>t. task_id t \<noteq> tid) (tasks p), updated_at := now\<rparr>) \<and>
         (tid \<notin> task_id ` set (tasks p) \<longrightarrow>
            get_project db' pid uid = Inr (p\<lparr>updated_at := now\<rparr>))"
    using rt st nt by (intro exI [of _ "update_one (by_id_owner pid uid) f db"]) (simp add: f_def)
  have rm: "delete_milestone db pid mid uid now
      = (Inr ''Milestone deleted'', update_one (by_id_owner pid uid) g db)"
    by (simp add: delete_milestone_def find_one_and_update_def found g_def)
  have sm: "get_project (update_one (by_id_owner pid uid) g db) pid uid = Inr (g p)"
    by (rule stored_by_id_owner [OF found]) (simp_all add: g_def)
  have nm: "mid \<notin> milestone_id ` set (milestones p) \<longrightarrow> g p = p\<lparr>updated_at := now\<rparr>"
  proof
    assume "mid \<notin> milestone_id ` set (milestones p)"
    then have "filter (\<lambda>m. milestone_id m \<noteq> mid) (milestones p) = milestones p"
      by (intro filter_True) auto
    then show "g p = p\<lparr>updated_at := now\<rparr>" by (simp add: g_def)
  qed
  show "\<exists>db'. delete_milestone db pid mid uid now = (Inr ''Milestone deleted'', db') \<and>
         get_project db' pid uid =
           Inr (p\<lparr>milestones := filter (\<lambda>m. milestone_id m \<noteq> mid) (milestones p),
                  updated_at := now\<rparr>) \<and>
         (mid \<notin> milestone_id ` set (milestones p) \<longrightarrow>
            get_project db' pid uid = Inr (p\<lparr>updated_at := now\<rparr>))"
    using rm sm nm by (intro exI [of _ "update_one (by_id_owner pid uid) g db"]) (simp add: g_def)
next
  assume "\<not> (\<exists>p \<in> set db. project_id p = pid \<and> owner_id p = uid)"
  then have none: "find_one (by_id_owner pid uid) db = None"
    by (simp add: find_one_None_iff by_id_owner_def)
  show "delete_task db pid tid uid now = (Inl project_not_found, db)"
    by (simp add: delete_task_def find_one_and_update_def none update_one_no_match)
  show "delete_milestone db pid mid uid now = (Inl project_not_found, db)"
    by (simp add: delete_milestone_def find_one_and_update_def none update_one_no_match)
qed

theorem delete_nested_idempotent_witness:
  "find_one (by_id_owner ''p1'' ''alice'') [launch] = Some launch \<and>
   ''m9'' \<notin> milestone_id ` set (milestones launch) \<and>
   ''t9'' \<notin> task_id ` set (tasks launch) \<and>
   delete_milestone [launch] ''p1'' ''m9'' ''alice'' ''2024-03-01T00:00:00+00:00''
     = (Inr ''Milestone deleted'', [launch\<lparr>updated_at := ''2024-03-01T00:00:00+00:00''\<rparr>]) \<and>
   delete_task [launch] ''p1'' ''t9'' ''alice'' ''2024-03-01T00:00:00+00:00''
     = (Inr ''Task deleted'', [launch\<lparr>updated_at := ''2024-03-01T00:00:00+00:00''\<rparr>]) \<and>
   \<not> (\<exists>p \<in> set [launch]. project_id p = ''p1'' \<and> owner_id p = ''bob'') \<and>
   \<not> (\<exists>p \<in> set [launch]. project_id p = ''p7'' \<and> owner_id p = ''alice'') \<and>
   delete_milestone [launch] ''p1'' ''m9'' ''bob'' ''2024-03-01T00:00:00+00:00''
     = (Inl project_not_found, [launch]) \<and>
   delete_task [launch] ''p7'' ''t9'' ''alice'' ''2024-03-01T00:00:00+00:00''
     = (Inl project_not_found, [launch])"
proof -
  have a: "find_one (by_id_owner ''p1'' ''alice'') [launch] = Some launch"
    by (simp add: find_one_def by_id_owner_def launch_def)
  have b: "''m9'' \<notin> milestone_id ` set (milestones launch)"
    "''t9'' \<notin> task_id ` set (tasks launch)"
    by (simp_all add: launch_def beta_milestone_def design_task_def review_task_def)
  have c: "\<not> (\<exists>p \<in> set [launch]. project_id p = ''p1'' \<and> owner_id p = ''bob'')"
    "\<not> (\<exists>p \<in> set [launch]. project_id p = ''p7'' \<and> owner_id p = ''alice'')"
    by (simp_all add: launch_def)
  have upd: "update_one (by_id_owner ''p1'' ''alice'') f [launch] = [f launch]" for f
    by (simp add: by_id_owner_def launch_def)
  note ok = delete_nested_idempotent [of "''p1''" "''alice''" "[launch]" "''t9''"
      "''2024-03-01T00:00:00+00:00''" "''m9''", THEN conjunct1, rule_format, OF a]
  from ok [THEN conjunct1] b(2)
  have d: "get_project (snd (delete_task [launch] ''p1'' ''t9'' ''alice'' ''2024-03-01T00:00:00+00:00''))
      ''p1'' ''alice'' = Inr (launch\<lparr>updated_at := ''2024-03-01T00:00:00+00:00''\<rparr>) \<and>
    fst (delete_task [launch] ''p1'' ''t9'' ''alice'' ''2024-03-01T00:00:00+00:00'') = Inr ''Task deleted''"
    by auto
  have d': "snd (delete_task [launch] ''p1'' ''t9'' ''alice'' ''2024-03-01T00:00:00+00:00'')
      = [launch\<lparr>updated_at := ''2024-03-01T00:00:00+00:00''\<rparr>]"
    using d by (simp add: delete_task_def find_one_and_update_def a upd get_project_def
        find_one_def split: if_splits)
  from ok [THEN conjunct2] b(1)
  have e: "get_project (snd (delete_milestone [launch] ''p1'' ''m9'' ''alice'' ''2024-03-01T00:00:00+00:00''))
      ''p1'' ''alice'' = Inr (launch\<lparr>updated_at := ''2024-03-01T00:00:00+00:00''\<rparr>) \<and>
    fst (delete_milestone [launch] ''p1'' ''m9'' ''alice'' ''2024-03-01T00:00:00+00:00'')
      = Inr ''Milestone deleted''"
    by auto
  have e': "snd (delete_milestone [launch] ''p1'' ''m9'' ''alice'' ''2024-03-01T00:00:00+00:00'')
      = [launch\<lparr>updated_at := ''2024-03-01T00:00:00+00:00''\<rparr>]"
    using e by (simp add: delete_milestone_def find_one_and_update_def a upd get_project_def
        find_one_def split: if_splits)
  from delete_nested_idempotent [of "''p1''" "''bob''" "[launch]" "''t9''"
      "''2024-03-01T00:00:00+00:00''" "''m9''", THEN conjunct2, rule_format, OF c(1)]
  have f: "delete_milestone [launch] ''p1'' ''m9'' ''bob'' ''2024-03-01T00:00:00+00:00''
     = (Inl project_not_found, [launch])" by simp
  from delete_nested_idempotent [of "''p7''" "''alice''" "[launch]" "''t9''"
      "''2024-03-01T00:00:00+00:00''" "''m9''", THEN conjunct2, rule_format, OF c(2)]
  have g: "delete_task [launch] ''p7'' ''t9'' ''alice'' ''2024-03-01T00:00:00+00:00''
     = (Inl project_not_found, [launch])" by simp
  from d d' have dd: "delete_task [launch] ''p1'' ''t9'' ''alice'' ''2024-03-01T00:00:00+00:00''
     = (Inr ''Task deleted'', [launch\<lparr>updated_at := ''2024-03-01T00:00:00+00:00''\<rparr>])"
    by (simp add: prod_eq_iff)
  from e e' have ee: "delete_milestone [launch] ''p1'' ''m9'' ''alice'' ''2024-03-01T00:00:00+00:00''
     = (Inr ''Milestone deleted'', [launch\<lparr>updated_at := ''2024-03-01T00:00:00+00:00''\<rparr>])"
    by (simp add: prod_eq_iff)
  from a b c dd ee f g show ?thesis by blast
qed

section \<open>Ownership isolation\<close>

text \<open>
  Claim C3. Let project \<open>p\<close> be stored with owner \<open>a\<close>, let \<open>b\<close> be another user, and let the
  ids of the stored projects be distinct (they are fresh \<^verbatim>\<open>uuid4\<close> values). Then \<open>b\<close>'s
  \<^verbatim>\<open>get_project\<close> on the id of \<open>p\<close> raises the same 404 as on an id that no project has,
  \<open>p\<close> is not in \<open>b\<close>'s project list, and every other handler called by \<open>b\<close> on the id of \<open>p\<close>
  raises that 404 and leaves the collection as it was.
\<close>

theorem ownership_isolation:
  assumes "p \<in> set db" and "owner_id p = a" and "b \<noteq> a"
    and "distinct (map project_id db)" and "absent \<notin> project_id ` set db"
  shows "get_project db (project_id p) b = Inl project_not_found \<and>
    get_project db absent b = Inl project_not_found \<and>
    p \<notin> set (get_projects db b) \<and>
    update_project db (project_id p) project_data b now = (Inl project_not_found, db) \<and>
    delete_project db (project_id p) b = (Inl project_not_found, db) \<and>
    create_task db (project_id p) task_data b new_id created now = (Inl project_not_found, db) \<and>
    update_task db (project_id p) tid task_patch b now_completed now
      = (Inl project_not_found, db) \<and>
    delete_task db (project_id p) tid b now = (Inl project_not_found, db) \<and>
    add_time_entry db (project_id p) tid time_data b new_id created now
      = (Inl project_not_found, db) \<and>
    delete_time_entry db (project_id p) tid time_id b now = (Inl project_not_found, db) \<and>
    create_milestone db (project_id p) milestone_data b new_id now
      = (Inl project_not_found, db) \<and>
    update_milestone db (project_id p) mid compl b now_completed now
      = (Inl project_not_found, db) \<and>
    delete_milestone db (project_id p) mid b now = (Inl project_not_found, db)"
proof -
  from assms(2,3) have "owner_id p \<noteq> b" by simp
  from owner_no_match [OF assms(4,1) this]
  have none: "find_one (by_id_owner (project_id p) b) db = None" .
  from assms(5) have none': "find_one (by_id_owner absent b) db = None"
    by (auto simp: find_one_None_iff by_id_owner_def)
  have upd: "update_one (by_id_owner (project_id p) b) f db = db" for f
    by (rule update_one_no_match [OF none])
  from assms(2,3) have list: "p \<notin> set (get_projects db b)"
    by (auto simp: get_projects_def find_to_list_def by_owner_def dest: in_set_takeD)
  show ?thesis
    using list
    by (simp add: none none' upd get_project_def update_project_def delete_project_def
        create_task_def update_task_def delete_task_def add_time_entry_def
        delete_time_entry_def create_milestone_def update_milestone_def delete_milestone_def
        find_one_and_update_def delete_one_no_match)
qed

theorem ownership_isolation_witness:
  "launch \<in> set [launch] \<and> owner_id launch = ''alice'' \<and> ''bob'' \<noteq> ''alice'' \<and>
   distinct (map project_id [launch]) \<and> ''p7'' \<notin> project_id ` set [launch] \<and>
   project_id launch = ''p1'' \<and>
   get_project [launch] ''p1'' ''bob'' = Inl (HTTPException 404 ''Project not found'') \<and>
   get_project [launch] ''p7'' ''bob'' = Inl (HTTPException 404 ''Project not found'') \<and>
   update_task [launch] ''p1'' ''t1'' reopen ''bob'' ''2024-03-01T00:00:00+00:00''
     ''2024-03-01T00:00:01+00:00'' = (Inl (HTTPException 404 ''Project not found''), [launch]) \<and>
   delete_project [launch] ''p1'' ''bob'' = (Inl (HTTPException 404 ''Project not found''), [launch])"
proof -
  have h: "launch \<in> set [launch]" "owner_id launch = ''alice''" "''bob'' \<noteq> ''alice''"
    "distinct (map project_id [launch])" "''p7'' \<notin> project_id ` set [launch]"
    by (simp_all add: launch_def)
  have i: "project_id launch = ''p1''" by (simp add: launch_def)
  from ownership_isolation [OF h, of rename "''2024-03-01T00:00:01+00:00''" new_design
      "''t5''" "''2024-03-01T00:00:01+00:00''" "''t1''" reopen "''2024-03-01T00:00:00+00:00''"
      one_hour "''e1''" new_beta "''m1''" True]
  show ?thesis using h unfolding i by (simp add: project_not_found_def)
qed

lemma fau_refreshes:
  assumes "find_one_and_update (by_id_owner pid uid) f rd db = (Some r, db')"
    and "\<And>q. project_id (f q) = project_id q \<and> owner_id (f q) = owner_id q \<and> updated_at (f q) = now"
  shows "\<exists>p'. get_project db' pid uid = Inr p' \<and> updated_at p' = now"
proof -
  from assms(1) obtain p where found: "find_one (by_id_owner pid uid) db = Some p"
    by (cases "find_one (by_id_owner pid uid) db")
       (auto simp: find_one_and_update_def split: if_splits)
  from assms(1) have db': "db' = update_one (by_id_owner pid uid) f db"
    by (simp add: find_one_and_update_def)
  have "get_project db' pid uid = Inr (f p)"
    unfolding db' by (rule stored_by_id_owner [OF found]) (simp_all add: assms(2))
  with assms(2) show ?thesis by simp
qed

lemma rmw_refreshes:
  assumes "distinct (map project_id db)" and "find_one (by_id_owner pid uid) db = Some p"
    and "\<And>q. project_id (f q) = project_id q \<and> owner_id (f q) = owner_id q \<and> updated_at (f q) = now"
  shows "\<exists>p'. get_project (update_one (by_id pid) f db) pid uid = Inr p' \<and> updated_at p' = now"
proof -
  have "get_project (update_one (by_id pid) f db) pid uid = Inr (f p)"
    by (rule stored_by_id [OF assms(1,2)]) (simp_all add: assms(3))
  with assms(3) show ?thesis by simp
qed

lemma update_project_refreshes:
  "update_project db pid project_data uid now = (Inr r, db')
     \<Longrightarrow> \<exists>p'. get_project db' pid uid = Inr p' \<and> updated_at p' = now"
  by (auto simp: update_project_def set_project_fields_def split: prod.splits option.splits
      intro!: fau_refreshes)

lemma create_task_refreshes:
  "create_task db pid task_data uid new_id created now = (Inr r, db')
     \<Longrightarrow> \<exists>p'. get_project db' pid uid = Inr p' \<and> updated_at p' = now"
  by (auto simp: create_task_def Let_def split: prod.splits option.splits intro!: fau_refreshes)

lemma delete_task_refreshes:
  "delete_task db pid tid uid now = (Inr r, db')
     \<Longrightarrow> \<exists>p'. get_project db' pid uid = Inr p' \<and> updated_at p' = now"
  by (auto simp: delete_task_def split: prod.splits option.splits intro!: fau_refreshes)

lemma create_milestone_refreshes:
  "create_milestone db pid milestone_data uid new_id now = (Inr r, db')
     \<Longrightarrow> \<exists>p'. get_project db' pid uid = Inr p' \<and> updated_at p' = now"
  by (auto simp: create_milestone_def Let_def split: prod.splits option.splits
      intro!: fau_refreshes)

lemma delete_milestone_refreshes:
  "delete_milestone db pid mid uid now = (Inr r, db')
     \<Longrightarrow> \<exists>p'. get_project db' pid uid = Inr p' \<and> updated_at p' = now"
  by (auto simp: delete_milestone_def split: prod.splits option.splits intro!: fau_refreshes)

lemma update_task_refreshes:
  "distinct (map project_id db)
     \<Longrightarrow> update_task db pid tid task_data uid now_completed now = (Inr r, db')
     \<Longrightarrow> \<exists>p'. get_project db' pid uid = Inr p' \<and> updated_at p' = now"
  by (auto simp: update_task_def Let_def split: option.splits intro!: rmw_refreshes)

lemma add_time_entry_refreshes:
  "distinct (map project_id db)
     \<Longrightarrow> add_time_entry db pid tid time_data uid new_id created now = (Inr r, db')
     \<Longrightarrow> \<exists>p'. get_project db' pid uid = Inr p' \<and> updated_at p' = now"
  by (auto simp: add_time_entry_def Let_def split: option.splits intro!: rmw_refreshes)

lemma delete_time_entry_refreshes:
  "distinct (map project_id db)
     \<Longrightarrow> delete_time_entry db pid tid time_id uid now = (Inr r, db')
     \<Longrightarrow> \<exists>p'. get_project db' pid uid = Inr p' \<and> updated_at p' = now"
  by (auto simp: delete_time_entry_def Let_def split: option.splits intro!: rmw_refreshes)

lemma update_milestone_refreshes:
  "distinct (map project_id db)
     \<Longrightarrow> update_milestone db pid mid compl uid now_completed now = (Inr r, db')
     \<Longrightarrow> \<exists>p'. get_project db' pid uid = Inr p' \<and> updated_at p' = now"
  by (auto simp: update_milestone_def Let_def split: option.splits intro!: rmw_refreshes)


section \<open>Every mutation refreshes \<^verbatim>\<open>updated_at\<close>\<close>

text \<open>
  Claim C9. Let the caller own a stored project with the given id, and let the ids of the
  stored projects be distinct (fresh \<^verbatim>\<open>uuid4\<close> values; four handlers write the project
  back under its id alone). Then each mutating handler succeeds and the project stored
  afterwards under that id and owner has \<^verbatim>\<open>updated_at\<close> equal to the time the handler read
  for it: project update, task create and delete, milestone create and delete on every
  such project; task update, time entry add and time entry delete when the project has a
  task of the given id; milestone toggle when it has a milestone of the given id.
\<close>

theorem mutations_refresh_updated_at:
  assumes "distinct (map project_id db)"
    and "find_one (by_id_owner pid uid) db = Some p"
  shows
   "(\<exists>r db' p'. update_project db pid project_data uid now = (Inr r, db') \<and>
       get_project db' pid uid = Inr p' \<and> updated_at p' = now) \<and>
    (\<exists>r db' p'. create_task db pid task_data uid new_id created now = (Inr r, db') \<and>
       get_project db' pid uid = Inr p' \<and> updated_at p' = now) \<and>
    (\<exists>r db' p'. delete_task db pid tid uid now = (Inr r, db') \<and>
       get_project db' pid uid = Inr p' \<and> updated_at p' = now) \<and>
    (\<exists>r db' p'. create_milestone db pid milestone_data uid new_id now = (Inr r, db') \<and>
       get_project db' pid uid = Inr p' \<and> updated_at p' = now) \<and>
    (\<exists>r db' p'. delete_milestone db pid mid uid now = (Inr r, db') \<and>
       get_project db' pid uid = Inr p' \<and> updated_at p' = now) \<and>
    ((\<exists>t \<in> set (tasks p). task_id t = tid) \<longrightarrow>
       (\<exists>r db' p'. update_task db pid tid task_patch uid now_completed now = (Inr r, db') \<and>
          get_project db' pid uid = Inr p' \<and> updated_at p' = now) \<and>
       (\<exists>r db' p'. add_time_entry db pid tid time_data uid new_id created now = (Inr r, db') \<and>
          get_project db' pid uid = Inr p' \<and> updated_at p' = now) \<and>
       (\<exists>r db' p'. delete_time_entry db pid tid time_id uid now = (Inr r, db') \<and>
          get_project db' pid uid = Inr p' \<and> updated_at p' = now)) \<and>
    ((\<exists>m \<in> set (milestones p). milestone_id m = mid) \<longrightarrow>
       (\<exists>r db' p'. update_milestone db pid mid compl uid now_completed now = (Inr r, db') \<and>
          get_project db' pid uid = Inr p' \<and> updated_at p' = now))"
proof -
  note found = assms(2)
  have up: "\<exists>r db'. update_project db pid project_data uid now = (Inr r, db')"
    by (simp add: update_project_def find_one_and_update_def found)
  have ct: "\<exists>r db'. create_task db pid task_data uid new_id created now = (Inr r, db')"
    by (simp add: create_task_def find_one_and_update_def found Let_def)
  have dt: "\<exists>r db'. delete_task db pid tid uid now = (Inr r, db')"
    by (simp add: delete_task_def find_one_and_update_def found)
  have cm: "\<exists>r db'. create_milestone db pid milestone_data uid new_id now = (Inr r, db')"
    by (simp add: create_milestone_def find_one_and_update_def found Let_def)
  have dm: "\<exists>r db'. delete_milestone db pid mid uid now = (Inr r, db')"
    by (simp add: delete_milestone_def find_one_and_update_def found)
  have c1: "\<exists>r db' p'. update_project db pid project_data uid now = (Inr r, db') \<and>
       get_project db' pid uid = Inr p' \<and> updated_at p' = now"
    using up update_project_refreshes by blast
  have c2: "\<exists>r db' p'. create_task db pid task_data uid new_id created now = (Inr r, db') \<and>
       get_project db' pid uid = Inr p' \<and> updated_at p' = now"
    using ct create_task_refreshes by blast
  have c3: "\<exists>r db' p'. delete_task db pid tid uid now = (Inr r, db') \<and>
       get_project db' pid uid = Inr p' \<and> updated_at p' = now"
    using dt delete_task_refreshes by blast
  have c4: "\<exists>r db' p'. create_milestone db pid milestone_data uid new_id now = (Inr r, db') \<and>
       get_project db' pid uid = Inr p' \<and> updated_at p' = now"
    using cm create_milestone_refreshes by blast
  have c5: "\<exists>r db' p'. delete_milestone db pid mid uid now = (Inr r, db') \<and>
       get_project db' pid uid = Inr p' \<and> updated_at p' = now"
    using dm delete_milestone_refreshes by blast
  have c6: "(\<exists>r db' p'. update_task db pid tid task_patch uid now_completed now = (Inr r, db') \<and>
          get_project db' pid uid = Inr p' \<and> updated_at p' = now) \<and>
       (\<exists>r db' p'. add_time_entry db pid tid time_data uid new_id created now = (Inr r, db') \<and>
          get_project db' pid uid = Inr p' \<and> updated_at p' = now) \<and>
       (\<exists>r db' p'. delete_time_entry db pid tid time_id uid now = (Inr r, db') \<and>
          get_project db' pid uid = Inr p' \<and> updated_at p' = now)"
    if "\<exists>t \<in> set (tasks p). task_id t = tid"
  proof -
    from that obtain i where i: "first_index (\<lambda>t. task_id t = tid) (tasks p) = Some i"
      by (cases "first_index (\<lambda>t. task_id t = tid) (tasks p)")
         (auto simp: first_index_None_iff)
    have ut: "\<exists>r db'. update_task db pid tid task_patch uid now_completed now = (Inr r, db')"
      by (simp add: update_task_def found i Let_def)
    have at: "\<exists>r db'. add_time_entry db pid tid time_data uid new_id created now = (Inr r, db')"
      by (simp add: add_time_entry_def found i Let_def)
    have de: "\<exists>r db'. delete_time_entry db pid tid time_id uid now = (Inr r, db')"
      by (simp add: delete_time_entry_def found i Let_def)
    from ut update_task_refreshes [OF assms(1)]
    have "\<exists>r db' p'. update_task db pid tid task_patch uid now_completed now = (Inr r, db') \<and>
          get_project db' pid uid = Inr p' \<and> updated_at p' = now" by blast
    moreover from at add_time_entry_refreshes [OF assms(1)]
    have "\<exists>r db' p'. add_time_entry db pid tid time_data uid new_id created now = (Inr r, db') \<and>
          get_project db' pid uid = Inr p' \<and> updated_at p' = now" by blast
    moreover from de delete_time_entry_refreshes [OF assms(1)]
    have "\<exists>r db' p'. delete_time_entry db pid tid time_id uid now = (Inr r, db') \<and>
          get_project db' pid uid = Inr p' \<and> updated_at p' = now" by blast
    ultimately show ?thesis by (intro conjI)
  qed
  have c7: "\<exists>r db' p'. update_milestone db pid mid compl uid now_completed now = (Inr r, db') \<and>
          get_project db' pid uid = Inr p' \<and> updated_at p' = now"
    if "\<exists>m \<in> set (milestones p). milestone_id m = mid"
  proof -
    from that obtain j where j: "first_index (\<lambda>m. milestone_id m = mid) (milestones p) = Some j"
      by (cases "first_index (\<lambda>m. milestone_id m = mid) (milestones p)")
         (auto simp: first_index_None_iff)
    have um: "\<exists>r db'. update_milestone db pid mid compl uid now_completed now = (Inr r, db')"
      by (simp add: update_milestone_def found j Let_def)
    from um update_milestone_refreshes [OF assms(1)] show ?thesis by blast
  qed
  from c6 have c6': "(\<exists>t \<in> set (tasks p). task_id t = tid) \<longrightarrow>
       (\<exists>r db' p'. update_task db pid tid task_patch uid now_completed now = (Inr r, db') \<and>
          get_project db' pid uid = Inr p' \<and> updated_at p' = now) \<and>
       (\<exists>r db' p'. add_time_entry db pid tid time_data uid new_id created now = (Inr r, db') \<and>
          get_project db' pid uid = Inr p' \<and> updated_at p' = now) \<and>
       (\<exists>r db' p'. delete_time_entry db pid tid time_id uid now = (Inr r, db') \<and>
          get_project db' pid uid = Inr p' \<and> updated_at p' = now)"
    by (rule impI)
  from c7 have c7': "(\<exists>m \<in> set (milestones p). milestone_id m = mid) \<longrightarrow>
       (\<exists>r db' p'. update_milestone db pid mid compl uid now_completed now = (Inr r, db') \<and>
          get_project db' pid uid = Inr p' \<and> updated_at p' = now)"
    by (rule impI)
  show ?thesis
    by (intro conjI c1 c2 c3 c4 c5 c6' c7')
qed

theorem mutations_refresh_updated_at_witness:
  "distinct (map project_id [launch]) \<and>
   find_one (by_id_owner ''p1'' ''alice'') [launch] = Some launch \<and>
   (\<exists>t \<in> set (tasks launch). task_id t = ''t1'') \<and>
   (\<exists>m \<in> set (milestones launch). milestone_id m = ''m1'') \<and>
   (\<exists>r db' p'. update_project [launch] ''p1'' rename ''alice'' ''2024-03-01T00:00:01+00:00''
        = (Inr r, db') \<and>
      get_project db' ''p1'' ''alice'' = Inr p' \<and> updated_at p' = ''2024-03-01T00:00:01+00:00'') \<and>
   (\<exists>r db' p'. create_task [launch] ''p1'' new_design ''alice'' ''t3''
          ''2024-03-01T00:00:00+00:00'' ''2024-03-01T00:00:01+00:00'' = (Inr r, db') \<and>
      get_project db' ''p1'' ''alice'' = Inr p' \<and> updated_at p' = ''2024-03-01T00:00:01+00:00'') \<and>
   (\<exists>r db' p'. delete_task [launch] ''p1'' ''t1'' ''alice'' ''2024-03-01T00:00:01+00:00''
        = (Inr r, db') \<and>
      get_project db' ''p1'' ''alice'' = Inr p' \<and> updated_at p' = ''2024-03-01T00:00:01+00:00'') \<and>
   (\<exists>r db' p'. create_milestone [launch] ''p1'' new_beta ''alice'' ''t3''
          ''2024-03-01T00:00:01+00:00'' = (Inr r, db') \<and>
      get_project db' ''p1'' ''alice'' = Inr p' \<and> updated_at p' = ''2024-03-01T00:00:01+00:00'') \<and>
   (\<exists>r db' p'. delete_milestone [launch] ''p1'' ''m1'' ''alice'' ''2024-03-01T00:00:01+00:00''
        = (Inr r, db') \<and>
      get_project db' ''p1'' ''alice'' = Inr p' \<and> updated_at p' = ''2024-03-01T00:00:01+00:00'') \<and>
   (\<exists>r db' p'. update_task [launch] ''p1'' ''t1'' reopen ''alice''
          ''2024-03-01T00:00:00+00:00'' ''2024-03-01T00:00:01+00:00'' = (Inr r, db') \<and>
      get_project db' ''p1'' ''alice'' = Inr p' \<and> updated_at p' = ''2024-03-01T00:00:01+00:00'') \<and>
   (\<exists>r db' p'. add_time_entry [launch] ''p1'' ''t1'' one_hour ''alice'' ''t3''
          ''2024-03-01T00:00:00+00:00'' ''2024-03-01T00:00:01+00:00'' = (Inr r, db') \<and>
      get_project db' ''p1'' ''alice'' = Inr p' \<and> updated_at p' = ''2024-03-01T00:00:01+00:00'') \<and>
   (\<exists>r db' p'. delete_time_entry [launch] ''p1'' ''t1'' ''e9'' ''alice''
          ''2024-03-01T00:00:01+00:00'' = (Inr r, db') \<and>
      get_project db' ''p1'' ''alice'' = Inr p' \<and> updated_at p' = ''2024-03-01T00:00:01+00:00'') \<and>
   (\<exists>r db' p'. update_milestone [launch] ''p1'' ''m1'' False ''alice''
          ''2024-03-01T00:00:00+00:00'' ''2024-03-01T00:00:01+00:00'' = (Inr r, db') \<and>
      get_project db' ''p1'' ''alice'' = Inr p' \<and> updated_at p' = ''2024-03-01T00:00:01+00:00'')"
proof -
  have d: "distinct (map project_id [launch])" by simp
  have found: "find_one (by_id_owner ''p1'' ''alice'') [launch] = Some launch"
    by (simp add: find_one_def by_id_owner_def launch_def)
  have ht: "\<exists>t \<in> set (tasks launch). task_id t = ''t1''"
    by (simp add: launch_def design_task_def)
  have hm: "\<exists>m \<in> set (milestones launch). milestone_id m = ''m1''"
    by (simp add: launch_def beta_milestone_def)
  note inst = mutations_refresh_updated_at [OF d found, of rename "''2024-03-01T00:00:01+00:00''"
      new_design "''t3''" "''2024-03-01T00:00:00+00:00''" "''t1''" new_beta "''m1''"
      reopen "''2024-03-01T00:00:00+00:00''" one_hour "''e9''" False]
  note c1 = inst [THEN conjunct1]
  note c2 = inst [THEN conjunct2, THEN conjunct1]
  note c3 = inst [THEN conjunct2, THEN conjunct2, THEN conjunct1]
  note c4 = inst [THEN conjunct2, THEN conjunct2, THEN conjunct2, THEN conjunct1]
  note c5 = inst [THEN conjunct2, THEN conjunct2, THEN conjunct2, THEN conjunct2, THEN conjunct1]
  note c6 = inst [THEN conjunct2, THEN conjunct2, THEN conjunct2, THEN conjunct2, THEN conjunct2,
      THEN conjunct1, THEN mp, OF ht]
  note c7 = inst [THEN conjunct2, THEN conjunct2, THEN conjunct2, THEN conjunct2, THEN conjunct2,
      THEN conjunct2, THEN mp, OF hm]
  show ?thesis
    by (intro conjI d found ht hm c1 c2 c3 c4 c5 c6 [THEN conjunct1]
        c6 [THEN conjunct2, THEN conjunct1] c6 [THEN conjunct2, THEN conjunct2] c7)
qed

section \<open>Facts about the analytics loops\<close>

lemma fold_flatten: "fold (\<lambda>x acc. fold f (g x) acc) xs a = fold f (concat (map g xs)) a"
  by (induction xs arbitrary: a) simp_all

lemma fold_add_minutes:
  "fold (\<lambda>te acc. acc + duration_minutes te) es a = a + total_minutes es"
  by (induction es arbitrary: a) (simp_all add: total_minutes_def)

lemma overview_minutes:
  "fold (\<lambda>p acc. fold (\<lambda>t acc. fold (\<lambda>te acc. acc + duration_minutes te)
           (time_entries t) acc) (tasks p) acc) ps 0 = total_minutes (all_entries ps)"
proof -
  have "fold (\<lambda>p acc. fold (\<lambda>t acc. fold (\<lambda>te acc. acc + duration_minutes te)
           (time_entries t) acc) (tasks p) acc) ps 0
      = fold (\<lambda>p acc. fold (\<lambda>te acc. acc + duration_minutes te) (project_entries p) acc) ps 0"
    by (simp add: fold_flatten project_entries_def)
  also have "\<dots> = fold (\<lambda>te acc. acc + duration_minutes te) (all_entries ps) 0"
    by (simp add: fold_flatten all_entries_def)
  finally show ?thesis by (simp add: fold_add_minutes)
qed

lemma sum_ones_length: "sum_ones test xs = int (length (filter test xs))"
  by (induction xs) (simp_all add: sum_ones_def)

lemma sum_lengths: "sum_list (map (\<lambda>x. int (length (f x))) xs) = int (length (concat (map f xs)))"
  by (induction xs) simp_all

lemma sum_filtered_lengths:
  "sum_list (map (\<lambda>x. sum_ones test (f x)) xs) = int (length (filter test (concat (map f xs))))"
  by (induction xs) (simp_all add: sum_ones_length)

lemma entry_step_pair:
  "entry_step te (m, al) =
     (m + duration_minutes te,
      if entry_day te \<noteq> []
      then AList.update (entry_day te) (get0 al (entry_day te) + duration_minutes te) al
      else al)"
  by (simp add: entry_step_def entry_day_def Let_def)

lemma fold_entry_step:
  "fold entry_step es (m, al) = (m + total_minutes es, daily_of es al)"
proof (induction es arbitrary: m al)
  case Nil
  show ?case by (simp add: total_minutes_def daily_of_def)
next
  case (Cons te es)
  obtain al1 where s0: "entry_step te (0, al) = (duration_minutes te, al1)"
    by (simp add: entry_step_pair)
  then have sm: "entry_step te (m, al) = (m + duration_minutes te, al1)"
    by (simp add: entry_step_pair)
  have "daily_of (te # es) al = snd (fold entry_step es (duration_minutes te, al1))"
    by (simp add: daily_of_def s0)
  also have "\<dots> = daily_of es al1" by (simp add: Cons.IH)
  finally have d: "daily_of (te # es) al = daily_of es al1" .
  show ?case by (simp add: sm Cons.IH d total_minutes_def)
qed

lemma daily_of_Nil: "daily_of [] al = al"
  by (simp add: daily_of_def)

lemma daily_of_Cons:
  "daily_of (te # es) al =
     daily_of es (if entry_day te \<noteq> []
       then AList.update (entry_day te) (get0 al (entry_day te) + duration_minutes te) al
       else al)"
proof -
  have "daily_of (te # es) al = snd (fold entry_step es (entry_step te (0, al)))"
    by (simp add: daily_of_def)
  also have "\<dots> = daily_of es (if entry_day te \<noteq> []
       then AList.update (entry_day te) (get0 al (entry_day te) + duration_minutes te) al
       else al)"
    by (simp only: entry_step_pair fold_entry_step snd_conv)
  finally show ?thesis .
qed

lemma daily_of_append: "daily_of (xs @ ys) al = daily_of ys (daily_of xs al)"
proof -
  have "daily_of (xs @ ys) al = snd (fold entry_step ys (fold entry_step xs (0, al)))"
    by (simp add: daily_of_def)
  also have "\<dots> = daily_of ys (daily_of xs al)"
    by (simp only: fold_entry_step snd_conv)
  finally show ?thesis .
qed

lemma daily_of_keys:
  "fst ` set (daily_of es al) = fst ` set al \<union> {k \<in> entry_day ` set es. k \<noteq> []}"
  by (induction es arbitrary: al) (auto simp: daily_of_Nil daily_of_Cons dom_update)

lemma daily_of_distinct:
  "distinct (map fst al) \<Longrightarrow> distinct (map fst (daily_of es al))"
  by (induction es arbitrary: al) (simp_all add: daily_of_Nil daily_of_Cons distinct_update)

lemma get0_update: "get0 (AList.update k v al) k' = (if k' = k then v else get0 al k')"
  by (simp add: get0_def update_conv')

lemma daily_of_get0:
  "k \<noteq> [] \<Longrightarrow> get0 (daily_of es al) k = get0 al k + total_minutes (bucket_entries k es)"
  by (induction es arbitrary: al)
     (auto simp: daily_of_Nil daily_of_Cons get0_update total_minutes_def bucket_entries_def)

lemma project_step_pair:
  "project_step fl p (pts, al) =
     (pts @ (if total_minutes (project_entries p) > 0
             then [\<lparr>pt_name = project_name p,
                    pt_hours = round1 fl (truediv fl (total_minutes (project_entries p)) 60),
                    pt_color = project_color p\<rparr>]
             else []),
      daily_of (project_entries p) al)"
proof -
  have "fold (\<lambda>t acc. fold entry_step (time_entries t) acc) (tasks p) (0, al)
      = (total_minutes (project_entries p), daily_of (project_entries p) al)"
    by (simp add: fold_flatten project_entries_def [symmetric] fold_entry_step)
  then show ?thesis by (simp add: project_step_def)
qed

lemma fold_project_step:
  "fold (project_step fl) ps (pts, al) =
     (pts @ map (\<lambda>p. \<lparr>pt_name = project_name p,
                      pt_hours = round1 fl (truediv fl (total_minutes (project_entries p)) 60),
                      pt_color = project_color p\<rparr>)
              (filter (\<lambda>p. total_minutes (project_entries p) > 0) ps),
      daily_of (all_entries ps) al)"
proof (induction ps arbitrary: pts al)
  case Nil
  show ?case by (simp add: all_entries_def daily_of_Nil)
next
  case (Cons p ps)
  have "all_entries (p # ps) = project_entries p @ all_entries ps"
    by (simp add: all_entries_def)
  then show ?case
    by (simp add: project_step_pair Cons.IH daily_of_append)
qed

lemma sorted_pairs:
  assumes "sorted ks" and "distinct ks"
  shows "sorted (map (\<lambda>k. (k, g k)) ks)"
proof -
  from assms have "sorted_wrt (<) ks" by (simp add: strict_sorted_iff)
  then have "sorted_wrt (\<lambda>a b. (a, g a) \<le> (b, g b)) ks"
    by (rule sorted_wrt_mono_rel [rotated]) (simp add: less_eq_prod_def)
  then show ?thesis by (simp add: sorted_wrt_map)
qed

lemma set_alist:
  assumes "distinct (map fst al)"
  shows "set al = (\<lambda>k. (k, get0 al k)) ` fst ` set al"
proof -
  have "(k, v) \<in> set al \<Longrightarrow> get0 al k = v" for k v
    using assms by (simp add: get0_def)
  then show ?thesis by (force simp: image_iff)
qed

lemma sort_alist:
  assumes "distinct (map fst al)"
  shows "sort al = map (\<lambda>k. (k, get0 al k)) (sort (map fst al))"
proof (rule sorted_distinct_set_unique)
  show "sorted (sort al)" by simp
  from assms have "distinct al" by (rule distinct_map [THEN iffD1, THEN conjunct1])
  then show "distinct (sort al)" by simp
  show "sorted (map (\<lambda>k. (k, get0 al k)) (sort (map fst al)))"
    using assms by (intro sorted_pairs) simp_all
  show "distinct (map (\<lambda>k. (k, get0 al k)) (sort (map fst al)))"
    using assms by (simp add: distinct_map inj_on_def)
  show "set (sort al) = set (map (\<lambda>k. (k, get0 al k)) (sort (map fst al)))"
    using set_alist [OF assms] by simp
qed

lemma sorted_keys_are_bucket_days:
  "sort (map fst (daily_of es [])) = bucket_days es"
proof (rule sorted_distinct_set_unique)
  show "sorted (sort (map fst (daily_of es [])))" by simp
  have "distinct (map fst (daily_of es []))" by (rule daily_of_distinct) simp
  then show "distinct (sort (map fst (daily_of es [])))" by simp
  show "sorted (bucket_days es)" by (simp add: bucket_days_def)
  show "distinct (bucket_days es)" by (simp add: bucket_days_def)
  show "set (sort (map fst (daily_of es []))) = set (bucket_days es)"
    using daily_of_keys [of es "[]"] by (auto simp: bucket_days_def)
qed

lemma bucket_days_nonempty: "k \<in> set (bucket_days es) \<Longrightarrow> k \<noteq> []"
  by (simp add: bucket_days_def)

lemma sorted_daily:
  "sort (daily_of es []) = map (\<lambda>k. (k, total_minutes (bucket_entries k es))) (bucket_days es)"
proof -
  have d: "distinct (map fst (daily_of es []))" by (rule daily_of_distinct) simp
  have "sort (daily_of es []) = map (\<lambda>k. (k, get0 (daily_of es []) k)) (bucket_days es)"
    by (simp add: sort_alist [OF d] sorted_keys_are_bucket_days)
  also have "\<dots> = map (\<lambda>k. (k, total_minutes (bucket_entries k es))) (bucket_days es)"
  proof (rule map_cong)
    fix k assume "k \<in> set (bucket_days es)"
    then have "k \<noteq> []" by (rule bucket_days_nonempty)
    then have "get0 (daily_of es []) k = get0 [] k + total_minutes (bucket_entries k es)"
      by (rule daily_of_get0)
    then show "(k, get0 (daily_of es []) k) = (k, total_minutes (bucket_entries k es))"
      by (simp add: get0_def)
  qed simp
  finally show ?thesis .
qed

lemma last14_map: "last14 (map f xs) = map f (last14 xs)"
  by (simp add: last14_def drop_map)

lemma time_tracking_of_eq:
  "time_tracking_of fl ps =
     \<lparr>by_project =
        map (\<lambda>p. \<lparr>pt_name = project_name p,
                  pt_hours = round1 fl (truediv fl (total_minutes (project_entries p)) 60),
                  pt_color = project_color p\<rparr>)
          (filter (\<lambda>p. total_minutes (project_entries p) > 0) ps),
      daily =
        map (\<lambda>k. \<lparr>dt_date = k,
                  dt_hours = round1 fl (truediv fl (total_minutes (bucket_entries k (all_entries ps))) 60)\<rparr>)
          (last14 (bucket_days (all_entries ps)))\<rparr>"
  by (simp add: time_tracking_of_def fold_project_step sorted_daily last14_map comp_def)

section \<open>Facts about the example data\<close>

lemma filler_facts:
  "owner_id (filler i) = ''alice''" "tasks (filler i) = []" "milestones (filler i) = []"
  "project_entries (filler i) = []" "project_deadline (filler i) = None"
  "project_id (filler i) = CHR ''f'' # replicate i (CHR ''1'')"
  by (simp_all add: filler_def project_entries_def)

lemma fillers_inj: "inj_on (\<lambda>i. project_id (filler i)) A"
proof (rule inj_onI)
  fix i j assume "project_id (filler i) = project_id (filler j)"
  then have "length (replicate i (CHR ''1'')) = length (replicate j (CHR ''1''))"
    by (simp add: filler_facts)
  then show "i = j" by simp
qed

lemma length_fillers: "length (fillers n) = n"
  by (simp add: fillers_def)

lemma fillers_owned: "filter (by_owner ''alice'') (fillers n) = fillers n"
  by (simp add: fillers_def by_owner_def filler_facts)

lemma fillers_no_entries: "all_entries (fillers n) = []"
  by (simp add: fillers_def all_entries_def filler_facts)

lemma fillers_no_tasks: "all_tasks (fillers n) = []"
  by (simp add: fillers_def all_tasks_def filler_facts)

lemma fillers_no_time:
  "filter (\<lambda>p. total_minutes (project_entries p) > 0) (fillers n) = []"
  by (simp add: fillers_def filter_map comp_def filler_facts total_minutes_def)

lemma fillers_distinct: "distinct (map project_id (fillers n))"
  by (simp add: fillers_def distinct_map fillers_inj comp_def)

lemma crowded_fetch:
  "find_to_list (by_owner ''alice'') 1000 crowded_db = refund_project # fillers 999"
proof -
  have "by_owner ''alice'' refund_project" "by_owner ''alice'' overflow_project"
    by (simp_all add: by_owner_def refund_project_def overflow_project_def launch_def)
  then have "filter (by_owner ''alice'') crowded_db = crowded_db"
    by (simp add: crowded_db_def fillers_owned)
  then show ?thesis
    by (simp add: find_to_list_def crowded_db_def length_fillers)
qed

section \<open>Time tracking report (\<^verbatim>\<open>get_time_tracking_analytics\<close>)\<close>

text \<open>
  Claim C8, as amended. Let \<open>ps\<close> be the caller's projects as the query returns them: the
  first 1000 in storage order. (a) \<^verbatim>\<open>by_project\<close> lists, in that order, the projects of
  \<open>ps\<close> whose minutes (the sum of \<^verbatim>\<open>duration_minutes\<close> over all time entries of all tasks of
  the project) are positive, each with its name, its color and \<^verbatim>\<open>round(minutes / 60, 1)\<close>.
  (b) \<^verbatim>\<open>daily\<close> has one element per day among the last 14 of the non-empty days of the
  entries of \<open>ps\<close> (the day of an entry being the first ten characters of its date),
  ascending by the day string and without repetition, each with
  \<^verbatim>\<open>round(minutes / 60, 1)\<close> of the minutes of the entries of that day.
\<close>

theorem time_tracking_report:
  "get_projects db uid = take 1000 (filter (\<lambda>p. owner_id p = uid) db) \<and>
   by_project (get_time_tracking_analytics fl db uid) =
     map (\<lambda>p. \<lparr>pt_name = project_name p,
               pt_hours = round1 fl (truediv fl (total_minutes (project_entries p)) 60),
               pt_color = project_color p\<rparr>)
       (filter (\<lambda>p. total_minutes (project_entries p) > 0) (get_projects db uid)) \<and>
   daily (get_time_tracking_analytics fl db uid) =
     map (\<lambda>k. \<lparr>dt_date = k,
               dt_hours = round1 fl (truediv fl
                 (total_minutes (bucket_entries k (all_entries (get_projects db uid)))) 60)\<rparr>)
       (last14 (bucket_days (all_entries (get_projects db uid)))) \<and>
   sorted (bucket_days (all_entries (get_projects db uid))) \<and>
   distinct (bucket_days (all_entries (get_projects db uid))) \<and>
   set (bucket_days (all_entries (get_projects db uid))) =
     {k. k \<noteq> [] \<and> k \<in> (\<lambda>te. take 10 (entry_date te)) ` set (all_entries (get_projects db uid))} \<and>
   last14 (bucket_days (all_entries (get_projects db uid))) =
     drop (length (bucket_days (all_entries (get_projects db uid))) - 14)
       (bucket_days (all_entries (get_projects db uid)))"
proof -
  have a: "get_projects db uid = take 1000 (filter (\<lambda>p. owner_id p = uid) db)"
    by (simp add: get_projects_def find_to_list_def by_owner_fun)
  have b: "get_time_tracking_analytics fl db uid = time_tracking_of fl (get_projects db uid)"
    by (simp add: get_time_tracking_analytics_def get_projects_def)
  have c: "set (bucket_days es) = {k. k \<noteq> [] \<and> k \<in> (\<lambda>te. take 10 (entry_date te)) ` set es}"
    for es by (auto simp: bucket_days_def entry_day_def)
  have d: "sorted (bucket_days es)" "distinct (bucket_days es)" for es
    by (simp_all add: bucket_days_def)
  have e: "by_project (time_tracking_of fl ps) =
     map (\<lambda>p. \<lparr>pt_name = project_name p,
               pt_hours = round1 fl (truediv fl (total_minutes (project_entries p)) 60),
               pt_color = project_color p\<rparr>)
       (filter (\<lambda>p. total_minutes (project_entries p) > 0) ps)" for ps
    by (simp only: time_tracking_of_eq time_tracking.simps)
  have f: "daily (time_tracking_of fl ps) =
     map (\<lambda>k. \<lparr>dt_date = k,
               dt_hours = round1 fl (truediv fl (total_minutes (bucket_entries k (all_entries ps))) 60)\<rparr>)
       (last14 (bucket_days (all_entries ps)))" for ps
    by (simp only: time_tracking_of_eq time_tracking.simps)
  show ?thesis
    unfolding b
    by (intro conjI a e f d c) (rule last14_def)
qed



lemma tracked_fetch: "get_projects [tracked] ''alice'' = [tracked]"
  by (simp add: get_projects_def find_to_list_def by_owner_def tracked_def launch_def)

lemma tracked_entries:
  "all_entries [tracked] = [kickoff_entry, followup_entry, undated_entry]"
  "project_entries tracked = [kickoff_entry, followup_entry, undated_entry]"
  by (simp_all add: all_entries_def project_entries_def tracked_def tracked_task_def
      review_task_def)

lemma tracked_days_of:
  "map entry_day [kickoff_entry, followup_entry, undated_entry]
     = [''2024-01-01'', ''2024-01-02'', []]"
  by (simp add: entry_day_def kickoff_entry_def followup_entry_def undated_entry_def)


lemma tracked_days:
  "bucket_days [kickoff_entry, followup_entry, undated_entry] = [''2024-01-01'', ''2024-01-02'']"
  unfolding bucket_days_def tracked_days_of by simp

lemma tracked_buckets:
  "bucket_entries ''2024-01-01'' [kickoff_entry, followup_entry, undated_entry] = [kickoff_entry]"
  "bucket_entries ''2024-01-02'' [kickoff_entry, followup_entry, undated_entry] = [followup_entry]"
  by (simp_all add: bucket_entries_def entry_day_def kickoff_entry_def followup_entry_def
      undated_entry_def)


lemma tracked_minutes:
  "total_minutes [kickoff_entry, followup_entry, undated_entry] = 105"
  "total_minutes [kickoff_entry] = 60" "total_minutes [followup_entry] = 30"
  by (simp_all add: total_minutes_def kickoff_entry_def followup_entry_def undated_entry_def)

theorem time_tracking_report_witness:
  "by_project (get_time_tracking_analytics symbolic [tracked] ''alice'') =
     [\<lparr>pt_name = ''Launch'', pt_hours = Round1 (TrueDiv 105 60), pt_color = ''#4F46E5''\<rparr>] \<and>
   daily (get_time_tracking_analytics symbolic [tracked] ''alice'') =
     [\<lparr>dt_date = ''2024-01-01'', dt_hours = Round1 (TrueDiv 60 60)\<rparr>,
      \<lparr>dt_date = ''2024-01-02'', dt_hours = Round1 (TrueDiv 30 60)\<rparr>]"
proof -
  have nm: "project_name tracked = ''Launch''" "project_color tracked = ''#4F46E5''"
    by (simp_all add: tracked_def launch_def)
  have l14: "last14 [''2024-01-01'', ''2024-01-02''] = [''2024-01-01'', ''2024-01-02'']"
    by (simp add: last14_def)
  note inst = time_tracking_report [of "[tracked]" "''alice''" symbolic,
      unfolded tracked_fetch tracked_entries(1) tracked_days l14]
  from inst [THEN conjunct2, THEN conjunct1] have bp: "by_project (get_time_tracking_analytics symbolic [tracked] ''alice'') =
     [\<lparr>pt_name = ''Launch'', pt_hours = Round1 (TrueDiv 105 60), pt_color = ''#4F46E5''\<rparr>]"
    by (simp add: tracked_entries(2) tracked_minutes nm symbolic_def)
  from inst [THEN conjunct2, THEN conjunct2, THEN conjunct1] have dl: "daily (get_time_tracking_analytics symbolic [tracked] ''alice'') =
     [\<lparr>dt_date = ''2024-01-01'', dt_hours = Round1 (TrueDiv 60 60)\<rparr>,
      \<lparr>dt_date = ''2024-01-02'', dt_hours = Round1 (TrueDiv 30 60)\<rparr>]"
    by (simp add: tracked_buckets tracked_minutes symbolic_def)
  from bp dl show ?thesis by (rule conjI)
qed


lemma filler_id_head: "p \<in> set (fillers n) \<Longrightarrow> hd (project_id p) = CHR ''f''"
  by (auto simp: fillers_def filler_facts)

lemma crowded_distinct: "distinct (map project_id crowded_db)"
proof -
  have "project_id refund_project = ''p2''" "project_id overflow_project = ''p3''"
    by (simp_all add: refund_project_def overflow_project_def)
  moreover have "''p2'' \<notin> project_id ` set (fillers 999)"
  proof
    assume "''p2'' \<in> project_id ` set (fillers 999)"
    then obtain p where "p \<in> set (fillers 999)" "project_id p = ''p2''" by auto
    with filler_id_head [of p 999] show False by simp
  qed
  moreover have "''p3'' \<notin> project_id ` set (fillers 999)"
  proof
    assume "''p3'' \<in> project_id ` set (fillers 999)"
    then obtain p where "p \<in> set (fillers 999)" "project_id p = ''p3''" by auto
    with filler_id_head [of p 999] show False by simp
  qed
  ultimately show ?thesis
    by (simp add: crowded_db_def fillers_distinct)
qed

lemma crowded_entries:
  "project_entries refund_project = [refund_entry]"
  "project_entries overflow_project = [kickoff_entry]"
  "all_entries (refund_project # fillers 999) = [refund_entry]"
  by (simp_all add: all_entries_def project_entries_def refund_project_def
      overflow_project_def fillers_no_entries [unfolded all_entries_def])

lemma crowded_minutes:
  "total_minutes [refund_entry] = - 30" "total_minutes [kickoff_entry] = 60"
  by (simp_all add: total_minutes_def refund_entry_def kickoff_entry_def)

lemma crowded_days: "bucket_days [refund_entry] = []"
  by (simp add: bucket_days_def entry_day_def refund_entry_def)

text \<open>
  The claim as first stated fails on a collection of 1001 projects of one owner. The first
  project has a single time entry of \<open>-30\<close> minutes with an empty date, the last one (the
  1001st) a single entry of 60 minutes on 2024-01-01, the others no entry. The report is
  empty: the first project is left out although its total is not zero, its entry gets no
  bucket, and the last project is never fetched.
\<close>

theorem time_tracking_report_counterexample:
  "length (filter (by_owner ''alice'') crowded_db) = 1001 \<and>
   distinct (map project_id crowded_db) \<and>
   refund_project \<in> set crowded_db \<and> overflow_project \<in> set crowded_db \<and>
   total_minutes (project_entries refund_project) = - 30 \<and>
   total_minutes (project_entries overflow_project) = 60 \<and>
   project_entries refund_project = [refund_entry] \<and> entry_date refund_entry = [] \<and>
   project_entries overflow_project = [kickoff_entry] \<and>
   entry_date kickoff_entry = ''2024-01-01'' \<and>
   get_time_tracking_analytics symbolic crowded_db ''alice'' = \<lparr>by_project = [], daily = []\<rparr>"
proof -
  have own: "by_owner ''alice'' refund_project" "by_owner ''alice'' overflow_project"
    by (simp_all add: by_owner_def refund_project_def overflow_project_def launch_def)
  then have "filter (by_owner ''alice'') crowded_db = crowded_db"
    by (simp add: crowded_db_def fillers_owned)
  then have n: "length (filter (by_owner ''alice'') crowded_db) = 1001"
    by (simp add: crowded_db_def length_fillers)
  have mem: "refund_project \<in> set crowded_db" "overflow_project \<in> set crowded_db"
    by (simp_all add: crowded_db_def)
  have dates: "entry_date refund_entry = []" "entry_date kickoff_entry = ''2024-01-01''"
    by (simp_all add: refund_entry_def kickoff_entry_def)
  have none: "filter (\<lambda>p. total_minutes (project_entries p) > 0) (refund_project # fillers 999) = []"
    by (simp add: fillers_no_time crowded_entries crowded_minutes)
  have "get_time_tracking_analytics symbolic crowded_db ''alice''
      = time_tracking_of symbolic (refund_project # fillers 999)"
    by (simp add: get_time_tracking_analytics_def crowded_fetch)
  also have "\<dots> = \<lparr>by_project = [], daily = []\<rparr>"
    unfolding time_tracking_of_eq none crowded_entries crowded_days
    by (simp add: last14_def)
  finally have r: "get_time_tracking_analytics symbolic crowded_db ''alice''
      = \<lparr>by_project = [], daily = []\<rparr>" .
  show ?thesis
    using n crowded_distinct mem dates r
    by (simp add: crowded_entries crowded_minutes)
qed

lemma overview_of_tasks:
  "total_tasks (overview_of fl fi now ps) = int (length (all_tasks ps))"
  "completed_tasks (overview_of fl fi now ps)
     = int (length (filter (\<lambda>t. task_status t = ''done'') (all_tasks ps)))"
  "in_progress_tasks (overview_of fl fi now ps)
     = int (length (filter (\<lambda>t. task_status t = ''in_progress'') (all_tasks ps)))"
  "todo_tasks (overview_of fl fi now ps)
     = total_tasks (overview_of fl fi now ps) - completed_tasks (overview_of fl fi now ps)
       - in_progress_tasks (overview_of fl fi now ps)"
  by (simp_all add: overview_of_def Let_def sum_lengths sum_filtered_lengths all_tasks_def)

lemma overview_of_time:
  "total_time_hours (overview_of fl fi now ps)
     = round1 fl (truediv fl (total_minutes (all_entries ps)) 60)"
  by (simp add: overview_of_def Let_def overview_minutes)

lemma overview_of_rate:
  "task_completion_rate (overview_of fl fi now ps)
     = (if total_tasks (overview_of fl fi now ps) = 0 then PyInt 0
        else PyFloat (round1 fl (times_int fl
               (truediv fl (completed_tasks (overview_of fl fi now ps))
                  (total_tasks (overview_of fl fi now ps))) 100)))"
proof -
  have "0 \<le> sum_list (map (\<lambda>p. int (length (tasks p))) ps)"
    by (simp add: sum_lengths)
  then have "(0 < sum_list (map (\<lambda>p. int (length (tasks p))) ps))
      = (sum_list (map (\<lambda>p. int (length (tasks p))) ps) \<noteq> 0)"
    by linarith
  then show ?thesis
    by (simp add: overview_of_def Let_def)
qed

section \<open>Overview figures (\<^verbatim>\<open>get_analytics_overview\<close>)\<close>

text \<open>
  Claim C7, as amended. Let \<open>ps\<close> be the caller's projects as the query returns them: the
  first 1000 in storage order. Over the tasks of \<open>ps\<close>, \<^verbatim>\<open>total_tasks\<close> is their number,
  \<^verbatim>\<open>completed_tasks\<close> the number of those with status \<^verbatim>\<open>done\<close>, \<^verbatim>\<open>in_progress_tasks\<close> the number
  of those with status \<^verbatim>\<open>in_progress\<close>, and \<^verbatim>\<open>todo_tasks\<close> is
  \<^verbatim>\<open>total_tasks - completed_tasks - in_progress_tasks\<close>. \<^verbatim>\<open>total_time_hours\<close> is
  \<^verbatim>\<open>round(m / 60, 1)\<close> for \<open>m\<close> the sum of \<^verbatim>\<open>duration_minutes\<close> over every time entry of every
  task of every project of \<open>ps\<close>. \<^verbatim>\<open>task_completion_rate\<close> is the integer 0 when
  \<^verbatim>\<open>total_tasks\<close> is 0 and \<^verbatim>\<open>round(completed_tasks / total_tasks * 100, 1)\<close> otherwise.
\<close>

theorem overview_figures:
  "(let ps = get_projects db uid;
        ov = get_analytics_overview fl fromisoformat db uid now
    in ps = take 1000 (filter (\<lambda>p. owner_id p = uid) db) \<and>
       total_tasks ov = int (length (concat (map tasks ps))) \<and>
       completed_tasks ov
         = int (length (filter (\<lambda>t. task_status t = ''done'') (concat (map tasks ps)))) \<and>
       in_progress_tasks ov
         = int (length (filter (\<lambda>t. task_status t = ''in_progress'') (concat (map tasks ps)))) \<and>
       todo_tasks ov = total_tasks ov - completed_tasks ov - in_progress_tasks ov \<and>
       total_time_hours ov
         = round1 fl (truediv fl
             (sum_list (map duration_minutes
                (concat (map time_entries (concat (map tasks ps)))))) 60) \<and>
       task_completion_rate ov
         = (if total_tasks ov = 0 then PyInt 0
            else PyFloat (round1 fl
                   (times_int fl (truediv fl (completed_tasks ov) (total_tasks ov)) 100))))"
proof -
  have a: "get_projects db uid = take 1000 (filter (\<lambda>p. owner_id p = uid) db)"
    by (simp add: get_projects_def find_to_list_def by_owner_fun)
  have b: "get_analytics_overview fl fromisoformat db uid now
      = overview_of fl fromisoformat now (get_projects db uid)"
    by (simp add: get_analytics_overview_def get_projects_def)
  have c: "all_entries ps = concat (map time_entries (concat (map tasks ps)))"
    for ps :: "'a project list"
    by (induction ps) (simp_all add: all_entries_def project_entries_def)
  have d: "total_time_hours (overview_of fl fromisoformat now ps)
      = round1 fl (truediv fl
             (sum_list (map duration_minutes
                (concat (map time_entries (concat (map tasks ps)))))) 60)" for ps
    by (simp only: overview_of_time total_minutes_def c)
  show ?thesis
    unfolding Let_def b
    by (intro conjI a overview_of_tasks [unfolded all_tasks_def] d overview_of_rate)
qed


lemma tracked_tasks:
  "concat (map tasks [tracked]) = [tracked_task, review_task]"
  "task_status tracked_task = ''done''" "task_status review_task = ''todo''"
  "concat (map time_entries [tracked_task, review_task])
     = [kickoff_entry, followup_entry, undated_entry]"
  by (simp_all add: tracked_def tracked_task_def design_task_def review_task_def)

theorem overview_figures_witness:
  "total_tasks (get_analytics_overview symbolic example_fromisoformat [tracked] ''alice'' 1704067200) = 2 \<and>
   completed_tasks (get_analytics_overview symbolic example_fromisoformat [tracked] ''alice'' 1704067200) = 1 \<and>
   in_progress_tasks (get_analytics_overview symbolic example_fromisoformat [tracked] ''alice'' 1704067200) = 0 \<and>
   todo_tasks (get_analytics_overview symbolic example_fromisoformat [tracked] ''alice'' 1704067200) = 1 \<and>
   total_time_hours (get_analytics_overview symbolic example_fromisoformat [tracked] ''alice'' 1704067200)
     = Round1 (TrueDiv 105 60) \<and>
   task_completion_rate (get_analytics_overview symbolic example_fromisoformat [tracked] ''alice'' 1704067200)
     = PyFloat (Round1 (TimesInt (TrueDiv 1 2) 100)) \<and>
   total_tasks (get_analytics_overview symbolic example_fromisoformat [tracked] ''bob'' 1704067200) = 0 \<and>
   task_completion_rate (get_analytics_overview symbolic example_fromisoformat [tracked] ''bob'' 1704067200)
     = PyInt 0"
proof -
  note a = overview_figures [of "[tracked]" "''alice''" symbolic example_fromisoformat 1704067200,
      unfolded Let_def]
  note b = overview_figures [of "[tracked]" "''bob''" symbolic example_fromisoformat 1704067200,
      unfolded Let_def]
  have pa: "get_projects [tracked] ''alice'' = [tracked]" by (rule tracked_fetch)
  have pb: "get_projects [tracked] ''bob'' = []"
    by (simp add: get_projects_def find_to_list_def by_owner_def tracked_def launch_def)
  note a' = a [unfolded pa tracked_tasks(1,4)]
  note b' = b [unfolded pb]
  from a' [THEN conjunct2, THEN conjunct1] have t: "total_tasks (get_analytics_overview symbolic example_fromisoformat [tracked]
      ''alice'' 1704067200) = 2" by simp
  from a' [THEN conjunct2, THEN conjunct2, THEN conjunct1] have c: "completed_tasks (get_analytics_overview symbolic example_fromisoformat [tracked]
      ''alice'' 1704067200) = 1" by (simp add: tracked_tasks)
  from a' [THEN conjunct2, THEN conjunct2, THEN conjunct2, THEN conjunct1] have i: "in_progress_tasks (get_analytics_overview symbolic example_fromisoformat [tracked]
      ''alice'' 1704067200) = 0" by (simp add: tracked_tasks)
  from a' [THEN conjunct2, THEN conjunct2, THEN conjunct2, THEN conjunct2, THEN conjunct1] t c i
  have d: "todo_tasks (get_analytics_overview symbolic example_fromisoformat [tracked]
      ''alice'' 1704067200) = 1" by simp
  from a' [THEN conjunct2, THEN conjunct2, THEN conjunct2, THEN conjunct2, THEN conjunct2,
      THEN conjunct1]
  have h: "total_time_hours (get_analytics_overview symbolic example_fromisoformat [tracked]
      ''alice'' 1704067200) = Round1 (TrueDiv 105 60)"
    by (simp add: symbolic_def kickoff_entry_def followup_entry_def undated_entry_def)
  from a' [THEN conjunct2, THEN conjunct2, THEN conjunct2, THEN conjunct2, THEN conjunct2,
      THEN conjunct2]
  have r: "task_completion_rate (get_analytics_overview symbolic example_fromisoformat [tracked]
      ''alice'' 1704067200) = PyFloat (Round1 (TimesInt (TrueDiv 1 2) 100))"
    unfolding t c by (simp add: symbolic_def)
  from b' [THEN conjunct2, THEN conjunct1] have t0: "total_tasks (get_analytics_overview symbolic example_fromisoformat [tracked]
      ''bob'' 1704067200) = 0" by simp
  from b' [THEN conjunct2, THEN conjunct2, THEN conjunct2, THEN conjunct2, THEN conjunct2,
      THEN conjunct2]
  have r0: "task_completion_rate (get_analytics_overview symbolic example_fromisoformat [tracked]
      ''bob'' 1704067200) = PyInt 0"
    unfolding t0 by simp
  from t c i d h r t0 r0 show ?thesis by (intro conjI)
qed

lemma full_fetch: "find_to_list (by_owner ''alice'') 1000 full_db = fillers 1000"
proof -
  have "by_owner ''alice'' overflow_project"
    by (simp add: by_owner_def overflow_project_def launch_def)
  then have "filter (by_owner ''alice'') full_db = full_db"
    by (simp add: full_db_def fillers_owned)
  then show ?thesis
    by (simp add: find_to_list_def full_db_def length_fillers)
qed

lemma full_distinct: "distinct (map project_id full_db)"
proof -
  have "project_id overflow_project = ''p3''" by (simp add: overflow_project_def)
  moreover have "''p3'' \<notin> project_id ` set (fillers 1000)"
  proof
    assume "''p3'' \<in> project_id ` set (fillers 1000)"
    then obtain p where "p \<in> set (fillers 1000)" "project_id p = ''p3''" by auto
    with filler_id_head [of p 1000] show False by simp
  qed
  ultimately show ?thesis by (simp add: full_db_def fillers_distinct)
qed

text \<open>
  The claim as first stated (figures over all of the owner's projects) fails on a
  collection of 1001 projects of one owner of which only the last has a task: a finished
  task with one time entry of 60 minutes. The overview fetches the first 1000 projects and
  reports no task, no minute and the completion rate 0.
\<close>

theorem overview_figures_counterexample:
  "length (filter (by_owner ''alice'') full_db) = 1001 \<and>
   distinct (map project_id full_db) \<and>
   overflow_project \<in> set full_db \<and>
   map task_status (tasks overflow_project) = [''done''] \<and>
   total_minutes (project_entries overflow_project) = 60 \<and>
   total_tasks (get_analytics_overview symbolic example_fromisoformat full_db ''alice'' 1704067200) = 0 \<and>
   completed_tasks (get_analytics_overview symbolic example_fromisoformat full_db ''alice'' 1704067200) = 0 \<and>
   total_time_hours (get_analytics_overview symbolic example_fromisoformat full_db ''alice'' 1704067200)
     = Round1 (TrueDiv 0 60) \<and>
   task_completion_rate (get_analytics_overview symbolic example_fromisoformat full_db ''alice'' 1704067200)
     = PyInt 0"
proof -
  have "by_owner ''alice'' overflow_project"
    by (simp add: by_owner_def overflow_project_def launch_def)
  then have "filter (by_owner ''alice'') full_db = full_db"
    by (simp add: full_db_def fillers_owned)
  then have n: "length (filter (by_owner ''alice'') full_db) = 1001"
    by (simp add: full_db_def length_fillers)
  have mem: "overflow_project \<in> set full_db" by (simp add: full_db_def)
  have st: "map task_status (tasks overflow_project) = [''done'']"
    by (simp add: overflow_project_def design_task_def)
  have mins: "total_minutes (project_entries overflow_project) = 60"
    by (simp add: crowded_entries crowded_minutes)
  have ov: "get_analytics_overview symbolic example_fromisoformat full_db ''alice'' 1704067200
      = overview_of symbolic example_fromisoformat 1704067200 (fillers 1000)"
    by (simp add: get_analytics_overview_def full_fetch)
  have t: "total_tasks (overview_of symbolic example_fromisoformat 1704067200 (fillers 1000)) = 0"
    by (simp add: overview_of_tasks fillers_no_tasks)
  have c: "completed_tasks (overview_of symbolic example_fromisoformat 1704067200 (fillers 1000)) = 0"
    by (simp add: overview_of_tasks fillers_no_tasks)
  have h: "total_time_hours (overview_of symbolic example_fromisoformat 1704067200 (fillers 1000))
      = Round1 (TrueDiv 0 60)"
    by (simp add: overview_of_time fillers_no_entries total_minutes_def symbolic_def)
  have r: "task_completion_rate (overview_of symbolic example_fromisoformat 1704067200 (fillers 1000))
      = PyInt 0"
    by (simp add: overview_of_rate t)
  show ?thesis
    unfolding ov by (intro conjI n full_distinct mem st mins t c h r)
qed

lemma entry_day_empty: "entry_day te = [] \<longleftrightarrow> entry_date te = []"
  by (cases "entry_date te") (simp_all add: entry_day_def)

lemma total_minutes_split:
  "total_minutes es = total_minutes (filter P es) + total_minutes (filter (\<lambda>te. \<not> P te) es)"
  by (induction es) (simp_all add: total_minutes_def)

lemma project_entries_without_undated:
  "project_entries (without_undated p) = filter (\<lambda>te. entry_date te \<noteq> []) (project_entries p)"
  by (simp add: project_entries_def without_undated_def filter_concat map_concat comp_def)

lemma all_entries_without_undated:
  "all_entries (map without_undated ps) = filter (\<lambda>te. entry_date te \<noteq> []) (all_entries ps)"
  by (simp add: all_entries_def filter_concat comp_def project_entries_without_undated)

lemma bucket_days_dated:
  "bucket_days (filter (\<lambda>te. entry_date te \<noteq> []) es) = bucket_days es"
proof -
  have "filter (\<lambda>k. k \<noteq> []) (map entry_day (filter (\<lambda>te. entry_date te \<noteq> []) es))
      = filter (\<lambda>k. k \<noteq> []) (map entry_day es)"
    by (induction es) (simp_all add: entry_day_empty)
  then show ?thesis by (simp add: bucket_days_def)
qed

lemma bucket_entries_dated:
  "k \<noteq> [] \<Longrightarrow> bucket_entries k (filter (\<lambda>te. entry_date te \<noteq> []) es) = bucket_entries k es"
  by (induction es) (auto simp: bucket_entries_def entry_day_empty [symmetric])

lemma daily_without_undated:
  "daily (time_tracking_of fl (map without_undated ps)) = daily (time_tracking_of fl ps)"
proof -
  have "k \<in> set (last14 (bucket_days (all_entries ps))) \<Longrightarrow> k \<noteq> []" for k
    by (auto simp: last14_def dest: in_set_dropD bucket_days_nonempty)
  then show ?thesis
    by (simp add: time_tracking_of_eq all_entries_without_undated bucket_days_dated
        bucket_entries_dated cong: map_cong)
qed

lemma get_projects_map:
  assumes "\<And>p. owner_id (f p) = owner_id p"
  shows "get_projects (map f db) uid = map f (get_projects db uid)"
  by (simp add: get_projects_def find_to_list_def filter_map comp_def by_owner_fun assms take_map)

lemma daily_dates_nonempty: "[] \<notin> dt_date ` set (daily (time_tracking_of fl ps))"
proof
  assume "[] \<in> dt_date ` set (daily (time_tracking_of fl ps))"
  then have "[] \<in> set (last14 (bucket_days (all_entries ps)))"
    by (auto simp: time_tracking_of_eq)
  then have "[] \<in> set (bucket_days (all_entries ps))"
    by (auto simp: last14_def dest: in_set_dropD)
  then show False by (auto dest: bucket_days_nonempty)
qed


section \<open>Time entries with an empty date\<close>

text \<open>
  Claim C10, as amended. Let \<open>ps\<close> be the caller's projects as the queries of the two
  analytics handlers return them (the first 1000 in storage order). The minutes of a
  project, which the time-tracking report turns into the project's hours when they are
  positive, are the minutes of its entries with a non-empty date plus the minutes of its
  entries with an empty date, and so are the minutes behind \<^verbatim>\<open>total_time_hours\<close> of the
  overview. The \<^verbatim>\<open>daily\<close> list is the one the handler returns after every entry with an
  empty date has been removed from the collection, and none of its elements has the empty
  date.
\<close>

theorem undated_entries_counted_not_bucketed:
  "by_project (get_time_tracking_analytics fl db uid) =
     map (\<lambda>p. \<lparr>pt_name = project_name p,
               pt_hours = round1 fl (truediv fl
                 (total_minutes (filter (\<lambda>te. entry_date te \<noteq> []) (project_entries p)) +
                  total_minutes (filter (\<lambda>te. entry_date te = []) (project_entries p))) 60),
               pt_color = project_color p\<rparr>)
       (filter (\<lambda>p. total_minutes (filter (\<lambda>te. entry_date te \<noteq> []) (project_entries p)) +
                    total_minutes (filter (\<lambda>te. entry_date te = []) (project_entries p)) > 0)
          (get_projects db uid)) \<and>
   total_time_hours (get_analytics_overview fl fromisoformat db uid now) =
     round1 fl (truediv fl
       (total_minutes (filter (\<lambda>te. entry_date te \<noteq> []) (all_entries (get_projects db uid))) +
        total_minutes (filter (\<lambda>te. entry_date te = []) (all_entries (get_projects db uid)))) 60) \<and>
   daily (get_time_tracking_analytics fl db uid) =
     daily (get_time_tracking_analytics fl (map without_undated db) uid) \<and>
   [] \<notin> dt_date ` set (daily (get_time_tracking_analytics fl db uid))"
proof -
  have tt: "get_time_tracking_analytics fl d uid = time_tracking_of fl (get_projects d uid)"
    for d :: "'a db"
    by (simp add: get_time_tracking_analytics_def get_projects_def)
  have ov: "get_analytics_overview fl fromisoformat db uid now
      = overview_of fl fromisoformat now (get_projects db uid)"
    by (simp add: get_analytics_overview_def get_projects_def)
  have split: "total_minutes (filter (\<lambda>te. entry_date te \<noteq> []) es) +
      total_minutes (filter (\<lambda>te. entry_date te = []) es) = total_minutes es" for es
    using total_minutes_split [of es "\<lambda>te. entry_date te \<noteq> []"] by simp
  have a: "by_project (time_tracking_of fl ps) =
     map (\<lambda>p. \<lparr>pt_name = project_name p,
               pt_hours = round1 fl (truediv fl (total_minutes (project_entries p)) 60),
               pt_color = project_color p\<rparr>)
       (filter (\<lambda>p. total_minutes (project_entries p) > 0) ps)" for ps
    by (simp only: time_tracking_of_eq time_tracking.simps)
  have owner: "owner_id (without_undated p) = owner_id p" for p :: "'a project"
    by (simp add: without_undated_def)
  have c: "daily (get_time_tracking_analytics fl db uid) =
     daily (get_time_tracking_analytics fl (map without_undated db) uid)"
    by (simp only: tt get_projects_map [of without_undated, OF owner] daily_without_undated)
  show ?thesis
    unfolding split
    by (intro conjI c) (simp_all only: tt ov a overview_of_time daily_dates_nonempty not_False_eq_True)
qed


theorem undated_entries_counted_not_bucketed_witness:
  "entry_date undated_entry = [] \<and> duration_minutes undated_entry = 15 \<and>
   project_entries tracked = [kickoff_entry, followup_entry, undated_entry] \<and>
   by_project (get_time_tracking_analytics symbolic [tracked] ''alice'') =
     [\<lparr>pt_name = ''Launch'', pt_hours = Round1 (TrueDiv (90 + 15) 60), pt_color = ''#4F46E5''\<rparr>] \<and>
   total_time_hours (get_analytics_overview symbolic example_fromisoformat [tracked] ''alice''
       1704067200) = Round1 (TrueDiv (90 + 15) 60) \<and>
   daily (get_time_tracking_analytics symbolic [tracked] ''alice'') =
     daily (get_time_tracking_analytics symbolic [without_undated tracked] ''alice'') \<and>
   [] \<notin> dt_date ` set (daily (get_time_tracking_analytics symbolic [tracked] ''alice''))"
proof -
  have e: "entry_date undated_entry = []" "duration_minutes undated_entry = 15"
    by (simp_all add: undated_entry_def)
  have dated: "filter (\<lambda>te. entry_date te \<noteq> []) [kickoff_entry, followup_entry, undated_entry]
      = [kickoff_entry, followup_entry]"
    "filter (\<lambda>te. entry_date te = []) [kickoff_entry, followup_entry, undated_entry]
      = [undated_entry]"
    by (simp_all add: kickoff_entry_def followup_entry_def undated_entry_def)
  have mins: "total_minutes [kickoff_entry, followup_entry] = 90"
    "total_minutes [undated_entry] = 15"
    by (simp_all add: total_minutes_def kickoff_entry_def followup_entry_def undated_entry_def)
  have nm: "project_name tracked = ''Launch''" "project_color tracked = ''#4F46E5''"
    by (simp_all add: tracked_def launch_def)
  have sum_tr: "total_minutes (filter (\<lambda>te. entry_date te \<noteq> []) (project_entries tracked)) +
      total_minutes (filter (\<lambda>te. entry_date te = []) (project_entries tracked)) = 105"
    by (simp only: tracked_entries(2) dated mins)
  note inst = undated_entries_counted_not_bucketed [of symbolic "[tracked]" "''alice''"
      example_fromisoformat 1704067200, unfolded tracked_fetch tracked_entries(1)]
  from inst [THEN conjunct1]
  have a: "by_project (get_time_tracking_analytics symbolic [tracked] ''alice'') =
     [\<lparr>pt_name = ''Launch'', pt_hours = Round1 (TrueDiv (90 + 15) 60), pt_color = ''#4F46E5''\<rparr>]"
    by (simp add: sum_tr nm symbolic_def)
  from inst [THEN conjunct2, THEN conjunct1]
  have b: "total_time_hours (get_analytics_overview symbolic example_fromisoformat [tracked]
       ''alice'' 1704067200) = Round1 (TrueDiv (90 + 15) 60)"
    apply (simp only: dated mins)
    apply (simp add: symbolic_def)
    done
  from inst [THEN conjunct2, THEN conjunct2, THEN conjunct1]
  have c: "daily (get_time_tracking_analytics symbolic [tracked] ''alice'') =
     daily (get_time_tracking_analytics symbolic [without_undated tracked] ''alice'')"
    by simp
  note d = inst [THEN conjunct2, THEN conjunct2, THEN conjunct2]
  show ?thesis
    by (intro conjI e tracked_entries(2) a b c d)
qed

lemma undated_fetch:
  "find_to_list (by_owner ''alice'') 1000 undated_db = refund_project # fillers 999"
proof -
  have "by_owner ''alice'' refund_project" "by_owner ''alice'' late_project"
    by (simp_all add: by_owner_def refund_project_def late_project_def launch_def)
  then have "filter (by_owner ''alice'') undated_db = undated_db"
    by (simp add: undated_db_def fillers_owned)
  then show ?thesis
    by (simp add: find_to_list_def undated_db_def length_fillers)
qed

lemma undated_distinct: "distinct (map project_id undated_db)"
proof -
  have "project_id refund_project = ''p2''" "project_id late_project = ''p4''"
    by (simp_all add: refund_project_def late_project_def)
  moreover have "''p2'' \<notin> project_id ` set (fillers 999)"
  proof
    assume "''p2'' \<in> project_id ` set (fillers 999)"
    then obtain p where "p \<in> set (fillers 999)" "project_id p = ''p2''" by auto
    with filler_id_head [of p 999] show False by simp
  qed
  moreover have "''p4'' \<notin> project_id ` set (fillers 999)"
  proof
    assume "''p4'' \<in> project_id ` set (fillers 999)"
    then obtain p where "p \<in> set (fillers 999)" "project_id p = ''p4''" by auto
    with filler_id_head [of p 999] show False by simp
  qed
  ultimately show ?thesis
    by (simp add: undated_db_def fillers_distinct)
qed

text \<open>
  The claim as first stated (every entry with an empty date is counted in the per-project
  hours and in \<^verbatim>\<open>total_time_hours\<close>) fails on a collection of 1001 projects of one owner.
  The first project has one entry, of \<open>-30\<close> minutes and with an empty date; the last one
  (the 1001st) has one entry, of 15 minutes and with an empty date; the others have none.
  The report has no per-project hours at all: the first project's total is not positive
  and the last project is never fetched. \<^verbatim>\<open>total_time_hours\<close> is computed from \<open>-30\<close> minutes:
  the 15 minutes of the last project are not in it.
\<close>

theorem undated_entries_counted_not_bucketed_counterexample:
  "length (filter (by_owner ''alice'') undated_db) = 1001 \<and>
   distinct (map project_id undated_db) \<and>
   refund_project \<in> set undated_db \<and> late_project \<in> set undated_db \<and>
   project_entries refund_project = [refund_entry] \<and>
   entry_date refund_entry = [] \<and> duration_minutes refund_entry = - 30 \<and>
   project_entries late_project = [undated_entry] \<and>
   entry_date undated_entry = [] \<and> duration_minutes undated_entry = 15 \<and>
   by_project (get_time_tracking_analytics symbolic undated_db ''alice'') = [] \<and>
   total_time_hours (get_analytics_overview symbolic example_fromisoformat undated_db ''alice''
       1704067200) = Round1 (TrueDiv (- 30) 60)"
proof -
  have "by_owner ''alice'' refund_project" "by_owner ''alice'' late_project"
    by (simp_all add: by_owner_def refund_project_def late_project_def launch_def)
  then have "filter (by_owner ''alice'') undated_db = undated_db"
    by (simp add: undated_db_def fillers_owned)
  then have n: "length (filter (by_owner ''alice'') undated_db) = 1001"
    by (simp add: undated_db_def length_fillers)
  have mem: "refund_project \<in> set undated_db" "late_project \<in> set undated_db"
    by (simp_all add: undated_db_def)
  have late: "project_entries late_project = [undated_entry]"
    by (simp add: project_entries_def late_project_def)
  have e: "entry_date refund_entry = []" "duration_minutes refund_entry = - 30"
    "entry_date undated_entry = []" "duration_minutes undated_entry = 15"
    by (simp_all add: refund_entry_def undated_entry_def)
  have none: "filter (\<lambda>p. total_minutes (project_entries p) > 0) (refund_project # fillers 999) = []"
    by (simp add: fillers_no_time crowded_entries crowded_minutes)
  have bp0: "by_project (time_tracking_of symbolic (refund_project # fillers 999)) = []"
    unfolding time_tracking_of_eq none by simp
  have "get_time_tracking_analytics symbolic undated_db ''alice''
      = time_tracking_of symbolic (refund_project # fillers 999)"
    by (simp add: get_time_tracking_analytics_def undated_fetch)
  then have bp: "by_project (get_time_tracking_analytics symbolic undated_db ''alice'') = []"
    by (simp only: bp0)
  have "get_analytics_overview symbolic example_fromisoformat undated_db ''alice'' 1704067200
      = overview_of symbolic example_fromisoformat 1704067200 (refund_project # fillers 999)"
    by (simp add: get_analytics_overview_def undated_fetch)
  then have h: "total_time_hours (get_analytics_overview symbolic example_fromisoformat undated_db
       ''alice'' 1704067200) = Round1 (TrueDiv (- 30) 60)"
    by (simp add: overview_of_time crowded_entries crowded_minutes symbolic_def)
  show ?thesis
    by (intro conjI n undated_distinct mem crowded_entries(1) e late bp h)
qed

lemma later_than_now_iff:
  "later_than_now fromisoformat now s
     \<longleftrightarrow> (\<exists>d. fromisoformat (replace_Z s) = Inr (Aware d) \<and> d > now)"
proof (cases "fromisoformat (replace_Z s)")
  case (Inl e)
  then show ?thesis by (simp add: later_than_now_def)
next
  case (Inr d)
  then show ?thesis by (cases d) (simp_all add: later_than_now_def)
qed

lemma fold_milestone_step:
  "fold (milestone_step fromisoformat now p) ms upcoming =
     upcoming @ map (milestone_item p)
       (filter (\<lambda>m. \<not> completed m \<and> milestone_due_date m \<noteq> [] \<and>
                 later_than_now fromisoformat now (milestone_due_date m)) ms)"
  by (induction ms arbitrary: upcoming) (simp_all add: milestone_step_def)

lemma deadline_step_eq:
  "deadline_step fromisoformat now p upcoming =
     upcoming @
     (case project_deadline p of
        None \<Rightarrow> []
      | Some s \<Rightarrow> if s \<noteq> [] \<and> later_than_now fromisoformat now s then [project_item p s] else []) @
     map (milestone_item p)
       (filter (\<lambda>m. \<not> completed m \<and> milestone_due_date m \<noteq> [] \<and>
                 later_than_now fromisoformat now (milestone_due_date m)) (milestones p))"
  by (simp add: deadline_step_def fold_milestone_step split: option.splits)

lemma overview_of_upcoming_single:
  "upcoming_deadlines (overview_of fl fromisoformat now [p]) =
     take 5 (sort_key di_deadline (deadline_step fromisoformat now p []))"
  by (simp add: overview_of_def Let_def)

lemma scenario_fetch: "find_to_list (by_owner ''alice'') 1000 [scenario] = [scenario]"
  by (simp add: find_to_list_def by_owner_def scenario_def launch_def)

lemma scenario_fields:
  "project_deadline scenario = Some ''2099-01-01''" "milestones scenario = [open_milestone]"
  "\<not> completed open_milestone" "milestone_due_date open_milestone = ''2030-01-01''"
  "project_name scenario = ''Launch''" "project_id scenario = ''p1''"
  by (simp_all add: scenario_def launch_def open_milestone_def)

lemma replace_Z_dates:
  "replace_Z ''2099-01-01'' = ''2099-01-01''" "replace_Z ''2030-01-01'' = ''2030-01-01''"
  "replace_Z ''2099-01-01T00:00:00Z'' = ''2099-01-01T00:00:00+00:00''"
  by (simp_all add: replace_Z_def)

section \<open>Upcoming deadlines (\<^verbatim>\<open>get_analytics_overview\<close>)\<close>

text \<open>
  Claim C2 says that a project created with deadline \<^verbatim>\<open>2099-01-01\<close> appears in
  \<^verbatim>\<open>upcoming_deadlines\<close>, and the spec's scenario adds a milestone due \<^verbatim>\<open>2030-01-01\<close> that is
  left incomplete. The handler lists neither. \<^verbatim>\<open>datetime.fromisoformat\<close> parses a date
  without a time to a naive \<^verbatim>\<open>datetime\<close>; comparing it with \<^verbatim>\<open>now\<close>, which is aware, raises
  \<^verbatim>\<open>TypeError\<close>; the bare \<^verbatim>\<open>except: pass\<close> meant for strings that do not parse swallows it.
  So for every \<^verbatim>\<open>fromisoformat\<close> that parses the two strings to naive values, as Python's
  does, the overview of the scenario has no upcoming deadline, whatever the time is.
\<close>

theorem date_only_deadlines_omitted:
  assumes "fromisoformat ''2099-01-01'' = Inr (Naive d1)"
    and "fromisoformat ''2030-01-01'' = Inr (Naive d2)"
  shows "upcoming_deadlines (get_analytics_overview fl fromisoformat [scenario] ''alice'' now) = []"
proof -
  have p: "\<not> later_than_now fromisoformat now ''2099-01-01''"
    by (simp add: later_than_now_iff replace_Z_dates assms)
  have m: "\<not> later_than_now fromisoformat now ''2030-01-01''"
    by (simp add: later_than_now_iff replace_Z_dates assms)
  have "deadline_step fromisoformat now scenario [] = []"
    by (simp add: deadline_step_eq scenario_fields p m)
  then show ?thesis
    by (simp add: get_analytics_overview_def scenario_fetch overview_of_upcoming_single)
qed

theorem date_only_deadlines_omitted_witness:
  "example_fromisoformat ''2099-01-01'' = Inr (Naive 4070908800) \<and>
   example_fromisoformat ''2030-01-01'' = Inr (Naive 1893456000) \<and>
   project_deadline scenario = Some ''2099-01-01'' \<and>
   map milestone_due_date (filter (\<lambda>m. \<not> completed m) (milestones scenario)) = [''2030-01-01''] \<and>
   upcoming_deadlines
     (get_analytics_overview symbolic example_fromisoformat [scenario] ''alice'' 1704067200) = []"
proof -
  have a: "example_fromisoformat ''2099-01-01'' = Inr (Naive 4070908800)"
    by (simp add: example_fromisoformat_def)
  have b: "example_fromisoformat ''2030-01-01'' = Inr (Naive 1893456000)"
    by (simp add: example_fromisoformat_def)
  have c: "map milestone_due_date (filter (\<lambda>m. \<not> completed m) (milestones scenario))
      = [''2030-01-01'']"
    by (simp add: scenario_fields)
  from date_only_deadlines_omitted [OF a b, of symbolic 1704067200]
  show ?thesis by (intro conjI a b scenario_fields(1) c)
qed

text \<open>With a deadline that carries a time and the zone \<^verbatim>\<open>Z\<close>, the same project is listed:
  the handler rewrites \<^verbatim>\<open>Z\<close> to \<^verbatim>\<open>+00:00\<close>, the string parses to an aware value, and the
  comparison with \<^verbatim>\<open>now\<close> succeeds.\<close>

lemma aware_deadline_listed:
  "upcoming_deadlines
     (get_analytics_overview symbolic example_fromisoformat
        [scenario\<lparr>project_deadline := Some ''2099-01-01T00:00:00Z''\<rparr>] ''alice'' 1704067200)
     = [\<lparr>di_type = ''project'', di_name = ''Launch'', di_deadline = ''2099-01-01T00:00:00Z'',
          di_project_id = ''p1'', di_project_name = None\<rparr>]"
proof -
  have f: "find_to_list (by_owner ''alice'') 1000
      [scenario\<lparr>project_deadline := Some ''2099-01-01T00:00:00Z''\<rparr>]
      = [scenario\<lparr>project_deadline := Some ''2099-01-01T00:00:00Z''\<rparr>]"
    by (simp add: find_to_list_def by_owner_def scenario_def launch_def)
  have p: "later_than_now example_fromisoformat 1704067200 ''2099-01-01T00:00:00Z''"
    by (simp add: later_than_now_iff replace_Z_dates example_fromisoformat_def)
  have m: "\<not> later_than_now example_fromisoformat 1704067200 ''2030-01-01''"
    by (simp add: later_than_now_iff replace_Z_dates example_fromisoformat_def)
  have "deadline_step example_fromisoformat 1704067200
      (scenario\<lparr>project_deadline := Some ''2099-01-01T00:00:00Z''\<rparr>) []
      = [project_item (scenario\<lparr>project_deadline := Some ''2099-01-01T00:00:00Z''\<rparr>)
           ''2099-01-01T00:00:00Z'']"
    by (simp add: deadline_step_eq scenario_fields p m)
  then show ?thesis
    by (simp add: get_analytics_overview_def f overview_of_upcoming_single project_item_def
        scenario_fields)
qed

end
